theory Spec2Isabelle
  imports Main
begin

text \<open>
  The shot-continuity and pipeline-state model of the Lahari media engine: the timeline of
  scenes and shots, the two adjacency lookups (the orchestrator's, over the flattened shot
  list, and the storyboard view's, by index arithmetic), the scene planning, the image and
  video requests the orchestrator builds, and the state updates of its handlers.

  The sources are \<^verbatim>\<open>src/unnamed/part_002\<close> (the types, imported as \<^verbatim>\<open>./types\<close>),
  \<^verbatim>\<open>src/unnamed/part_001\<close> (the \<^verbatim>\<open>App\<close> component, which is the orchestrator),
  \<^verbatim>\<open>src/components/Storyboard.tsx\<close> and \<^verbatim>\<open>src/services/geminiService.ts\<close>.
\<close>

section \<open>Data model (the types, src/unnamed/part_002)\<close>

text \<open>
  The enum \<^verbatim>\<open>GenerationStatus\<close> and the union type \<^verbatim>\<open>VideoMode\<close>.
\<close>

datatype GenerationStatus = IDLE | LOADING | SUCCESS | ERROR

datatype VideoMode = montage | cinematic

text \<open>
  \<^verbatim>\<open>interface VideoShot\<close>. The field \<^verbatim>\<open>id\<close> is written \<open>shot_id\<close> (and
  \<open>scene_id\<close> for a scene), the field \<^verbatim>\<open>error\<close> is written \<open>shot_error\<close>.
  An optional field (\<^verbatim>\<open>imageUrl?\<close>) is an option: \<open>None\<close> is \<^verbatim>\<open>undefined\<close>.
  The \<open>duration\<close> is a number that the code only copies.
\<close>

record VideoShot =
  shot_id :: string
  duration :: int
  visualPrompt :: string
  motionPrompt :: string
  imageUrl :: "string option"
  imageStatus :: GenerationStatus
  videoUrl :: "string option"
  videoStatus :: GenerationStatus
  useNextAsEndFrame :: bool
  shot_error :: "string option"

record VideoScene =
  scene_id :: string
  sectionLabel :: string
  startTime :: string
  endTime :: string
  lyrics :: string
  narrativeDescription :: string
  shots :: "VideoShot list"

text \<open>
  \<^verbatim>\<open>ProjectConcept\<close>, without its \<^verbatim>\<open>musicalStructure\<close>, which the orchestrator does not
  read. The code reads \<^verbatim>\<open>visualSuggestions\<close> as possibly missing
  (\<^verbatim>\<open>concept.visualSuggestions?.artStyle\<close>); its \<^verbatim>\<open>colorPalette\<close> is written
  \<open>suggestedPalette\<close>.
\<close>

record VisualSuggestions =
  physicalDescription :: string
  artStyle :: string
  suggestedPalette :: string

record ProjectConcept =
  title :: string
  language :: string
  deity :: string
  mood :: string
  theme :: string
  visualSuggestions :: "VisualSuggestions option"

record VisualIdentity =
  styleDescription :: string
  characterSheet :: string
  colorPalette :: string
  videoMode :: VideoMode
  heroImage :: "string option"

record ProjectAnalysis =
  concept :: ProjectConcept
  visualIdentity :: VisualIdentity
  targetDuration :: int

section \<open>JavaScript primitives used by the code\<close>

text \<open>
  The errors the modelled functions throw; \<^verbatim>\<open>new Error(m)\<close> carries its message.
\<close>

datatype js_error = TypeError | SyntaxError | Error string

text \<open>
  Truthiness of an optional string: \<^verbatim>\<open>undefined\<close> and the empty string are falsy.
\<close>

fun truthy :: "string option \<Rightarrow> bool" where
  "truthy None = False"
| "truthy (Some s) = (s \<noteq> [])"

text \<open>
  \<^verbatim>\<open>xs[i]\<close>: an index outside the array reads \<^verbatim>\<open>undefined\<close>.
\<close>

definition js_nth :: "'a list \<Rightarrow> int \<Rightarrow> 'a option" where
  "js_nth xs i = (if 0 \<le> i \<and> i < int (length xs) then Some (xs ! nat i) else None)"

text \<open>
  \<^verbatim>\<open>Array.prototype.findIndex\<close>: the index of the first element that satisfies the
  predicate, \<open>-1\<close> when there is none.
\<close>

fun findIndex :: "('a \<Rightarrow> bool) \<Rightarrow> 'a list \<Rightarrow> int" where
  "findIndex P [] = - 1"
| "findIndex P (x # xs) =
     (if P x then 0
      else (let r = findIndex P xs in if r = - 1 then - 1 else r + 1))"

text \<open>
  \<^verbatim>\<open>s.split(c)\<close> for a one-character separator; \<^verbatim>\<open>''.split(c)\<close> is \<^verbatim>\<open>['']\<close>.
\<close>

fun js_split :: "char \<Rightarrow> string \<Rightarrow> string list" where
  "js_split c [] = [[]]"
| "js_split c (x # xs) =
     (if x = c then [] # js_split c xs
      else (case js_split c xs of
              [] \<Rightarrow> [[x]]
            | p # ps \<Rightarrow> (x # p) # ps))"

text \<open>
  \<^verbatim>\<open>url.split(',')[1]\<close>: the payload of a data URL, \<^verbatim>\<open>undefined\<close> when the string
  has no comma.
\<close>

definition payload :: "string \<Rightarrow> string option" where
  "payload url = js_nth (js_split (CHR '','') url) 1"

text \<open>
  \<^verbatim>\<open>s.includes(sub)\<close>.
\<close>

fun js_includes :: "string \<Rightarrow> string \<Rightarrow> bool" where
  "js_includes [] sub = (sub = [])"
| "js_includes (c # cs) sub = (take (length sub) (c # cs) = sub \<or> js_includes cs sub)"

section \<open>Continuity resolver of the orchestrator (App, src/unnamed/part_001)\<close>

text \<open>
  \<^verbatim>\<open>let allShots = []; state.scenes.forEach(s => allShots.push(...s.shots));\<close>
\<close>

definition allShots :: "VideoScene list \<Rightarrow> VideoShot list" where
  "allShots scs = foldl (\<lambda>acc s. acc @ shots s) [] scs"

text \<open>
  \<^verbatim>\<open>getPreviousShot(sceneId, shotId)\<close> and \<^verbatim>\<open>getNextShot(sceneId, shotId)\<close> over
  \<^verbatim>\<open>state.scenes\<close>. Both take \<^verbatim>\<open>sceneId\<close> and never read it; \<^verbatim>\<open>null\<close> is \<open>None\<close>.
\<close>

definition getPreviousShot :: "VideoScene list \<Rightarrow> string \<Rightarrow> string \<Rightarrow> VideoShot option" where
  "getPreviousShot scs sceneId shotId =
     (let all = allShots scs;
          idx = findIndex (\<lambda>s. shot_id s = shotId) all
      in if idx > 0 then Some (all ! nat (idx - 1)) else None)"

definition getNextShot :: "VideoScene list \<Rightarrow> string \<Rightarrow> string \<Rightarrow> VideoShot option" where
  "getNextShot scs sceneId shotId =
     (let all = allShots scs;
          idx = findIndex (\<lambda>s. shot_id s = shotId) all
      in if idx \<noteq> - 1 \<and> idx < int (length all) - 1 then Some (all ! nat (idx + 1)) else None)"

section \<open>Adjacency of the storyboard view (src/components/Storyboard.tsx)\<close>

text \<open>
  \<^verbatim>\<open>getRelativeShots(sceneIdx, shotIdx)\<close>. Reading \<^verbatim>\<open>.shots\<close> of a scene index outside
  the array throws a \<^verbatim>\<open>TypeError\<close>; the optional chain \<^verbatim>\<open>scenes[sceneIdx + 1]?.shots[0]\<close>
  does not. A shot object is always truthy, so \<^verbatim>\<open>!prevShot\<close> holds exactly when the read
  gave \<^verbatim>\<open>undefined\<close>.
\<close>

record RelativeShots =
  prevShot :: "VideoShot option"
  nextShot :: "VideoShot option"

definition getRelativeShots :: "VideoScene list \<Rightarrow> int \<Rightarrow> int \<Rightarrow> js_error + RelativeShots" where
  "getRelativeShots scs sceneIdx shotIdx =
     (case js_nth scs sceneIdx of
        None \<Rightarrow> Inl TypeError
      | Some scene \<Rightarrow>
          (let prev0 = js_nth (shots scene) (shotIdx - 1);
               prev1 =
                 (if prev0 = None \<and> sceneIdx > 0 then
                    (case js_nth scs (sceneIdx - 1) of
                       None \<Rightarrow> Inl TypeError
                     | Some prevScene \<Rightarrow>
                         Inr (js_nth (shots prevScene) (int (length (shots prevScene)) - 1)))
                  else Inr prev0);
               next0 = js_nth (shots scene) (shotIdx + 1);
               nextFirst =
                 (case js_nth scs (sceneIdx + 1) of
                    None \<Rightarrow> None
                  | Some nextScene \<Rightarrow> js_nth (shots nextScene) 0);
               next1 = (if next0 = None \<and> nextFirst \<noteq> None then nextFirst else next0)
           in case prev1 of
                Inl e \<Rightarrow> Inl e
              | Inr p \<Rightarrow> Inr \<lparr>prevShot = p, nextShot = next1\<rparr>))"

section \<open>The global shot order of the specification\<close>

text \<open>
  The specification's ground truth: the global shot order is the concatenation of each
  scene's shots in scene order, the position of shot \<open>j\<close> of scene \<open>i\<close> in it is the number
  of shots of the scenes before \<open>i\<close> plus \<open>j\<close>, and the neighbours of a position are the
  elements right before and right after it, when they exist.
\<close>

definition flatten :: "VideoScene list \<Rightarrow> VideoShot list" where
  "flatten timeline = concat (map shots timeline)"

definition flatten_index :: "VideoScene list \<Rightarrow> nat \<Rightarrow> nat \<Rightarrow> nat" where
  "flatten_index timeline i j = length (flatten (take i timeline)) + j"

definition global_successor :: "VideoScene list \<Rightarrow> nat \<Rightarrow> nat \<Rightarrow> VideoShot option" where
  "global_successor timeline i j =
     (let k = flatten_index timeline i j
      in if k + 1 < length (flatten timeline) then Some (flatten timeline ! (k + 1)) else None)"

definition global_predecessor :: "VideoScene list \<Rightarrow> nat \<Rightarrow> nat \<Rightarrow> VideoShot option" where
  "global_predecessor timeline i j =
     (let k = flatten_index timeline i j
      in if 0 < k then Some (flatten timeline ! (k - 1)) else None)"

text \<open>
  A shot position: scene \<open>i\<close> of the timeline, shot \<open>j\<close> of that scene.
\<close>

definition shot_position :: "VideoScene list \<Rightarrow> nat \<Rightarrow> nat \<Rightarrow> bool" where
  "shot_position timeline i j = (i < length timeline \<and> j < length (shots (timeline ! i)))"

definition shot_at :: "VideoScene list \<Rightarrow> nat \<Rightarrow> nat \<Rightarrow> VideoShot" where
  "shot_at timeline i j = shots (timeline ! i) ! j"

definition every_scene_has_a_shot :: "VideoScene list \<Rightarrow> bool" where
  "every_scene_has_a_shot timeline = list_all (\<lambda>s. shots s \<noteq> []) timeline"

definition shot_ids_unique :: "VideoScene list \<Rightarrow> bool" where
  "shot_ids_unique timeline = distinct (map shot_id (flatten timeline))"

section \<open>Scene planning (src/services/geminiService.ts)\<close>

text \<open>
  The parsed planning response. The request's response schema names the properties of a
  scene and the properties \<^verbatim>\<open>id\<close>, \<^verbatim>\<open>duration\<close>, \<^verbatim>\<open>visualPrompt\<close> and \<^verbatim>\<open>motionPrompt\<close> of
  a shot, but the parsed object is not checked against it: the code reads \<^verbatim>\<open>s.id\<close>,
  \<^verbatim>\<open>s.shots\<close> and \<^verbatim>\<open>shot.id\<close> as possibly missing (\<^verbatim>\<open>s.id || ...\<close>, \<^verbatim>\<open>s.shots || []\<close>), and
  copies every other property the upstream object has with a spread (\<^verbatim>\<open>...s\<close>,
  \<^verbatim>\<open>...shot\<close>) into objects it types as \<^verbatim>\<open>VideoScene\<close> and \<^verbatim>\<open>VideoShot\<close>. An upstream shot
  is therefore read at the type \<^verbatim>\<open>VideoShot\<close>: besides the properties of the schema it may
  carry the optional ones, \<^verbatim>\<open>imageUrl\<close>, \<^verbatim>\<open>videoUrl\<close> and \<^verbatim>\<open>error\<close>, which the spread keeps.
  The properties \<^verbatim>\<open>imageStatus\<close>, \<^verbatim>\<open>videoStatus\<close> and \<^verbatim>\<open>useNextAsEndFrame\<close> are written after
  the spread, whatever the upstream object has there, so they are not part of the record.
\<close>

record RawShot =
  raw_shot_id :: "string option"
  raw_duration :: int
  raw_visualPrompt :: string
  raw_motionPrompt :: string
  raw_imageUrl :: "string option"
  raw_videoUrl :: "string option"
  raw_error :: "string option"

record RawScene =
  raw_scene_id :: "string option"
  raw_sectionLabel :: string
  raw_startTime :: string
  raw_endTime :: string
  raw_lyrics :: string
  raw_narrativeDescription :: string
  raw_shots :: "RawShot list option"

text \<open>
  What the awaited calls of \<^verbatim>\<open>planScenes\<close> gave: a rejection (of the file reader or of
  \<^verbatim>\<open>ai.models.generateContent\<close>) with its error, a response with no text, a text that
  \<^verbatim>\<open>JSON.parse\<close> rejects, or a parsed object whose \<^verbatim>\<open>scenes\<close> property may be missing.
\<close>

datatype PlanResponse = Rejected js_error | NoText | Unparsable | Parsed "RawScene list option"

text \<open>
  \<^verbatim>\<open>x.id || Math.random().toString(36).substr(2, 9)\<close>. The successive values of the
  random expression are \<open>rnd 0\<close>, \<open>rnd 1\<close>, ...; the counter is threaded through, and moves
  only when the upstream id is falsy.
\<close>

definition id_or_random :: "(nat \<Rightarrow> string) \<Rightarrow> nat \<Rightarrow> string option \<Rightarrow> string \<times> nat" where
  "id_or_random rnd n upstream =
     (case upstream of
        None \<Rightarrow> (rnd n, Suc n)
      | Some i \<Rightarrow> if i = [] then (rnd n, Suc n) else (i, n))"

text \<open>
  The object built for a shot: the upstream properties, then the four the code writes.
\<close>

definition plan_shot :: "VideoMode \<Rightarrow> RawShot \<Rightarrow> string \<Rightarrow> VideoShot" where
  "plan_shot mode r i =
     \<lparr>shot_id = i, duration = raw_duration r, visualPrompt = raw_visualPrompt r,
      motionPrompt = raw_motionPrompt r, imageUrl = raw_imageUrl r, imageStatus = IDLE,
      videoUrl = raw_videoUrl r, videoStatus = IDLE,
      useNextAsEndFrame = (mode = cinematic), shot_error = raw_error r\<rparr>"

fun plan_shots :: "(nat \<Rightarrow> string) \<Rightarrow> nat \<Rightarrow> VideoMode \<Rightarrow> RawShot list \<Rightarrow> VideoShot list \<times> nat" where
  "plan_shots rnd n mode [] = ([], n)"
| "plan_shots rnd n mode (r # rs) =
     (case id_or_random rnd n (raw_shot_id r) of
        (i, n1) \<Rightarrow>
          (case plan_shots rnd n1 mode rs of
             (ss, n2) \<Rightarrow> (plan_shot mode r i # ss, n2)))"

text \<open>
  \<^verbatim>\<open>(s.shots || [])\<close>
\<close>

definition raw_shot_list :: "RawScene \<Rightarrow> RawShot list" where
  "raw_shot_list s = (case raw_shots s of None \<Rightarrow> [] | Some rs \<Rightarrow> rs)"

fun plan_scenes :: "(nat \<Rightarrow> string) \<Rightarrow> nat \<Rightarrow> VideoMode \<Rightarrow> RawScene list \<Rightarrow> VideoScene list \<times> nat" where
  "plan_scenes rnd n mode [] = ([], n)"
| "plan_scenes rnd n mode (s # rest) =
     (case id_or_random rnd n (raw_scene_id s) of
        (i, n1) \<Rightarrow>
          (case plan_shots rnd n1 mode (raw_shot_list s) of
             (ss, n2) \<Rightarrow>
               (case plan_scenes rnd n2 mode rest of
                  (scs, n3) \<Rightarrow>
                    (\<lparr>scene_id = i, sectionLabel = raw_sectionLabel s,
                      startTime = raw_startTime s, endTime = raw_endTime s,
                      lyrics = raw_lyrics s,
                      narrativeDescription = raw_narrativeDescription s,
                      shots = ss\<rparr> # scs, n3))))"

definition planScenes :: "(nat \<Rightarrow> string) \<Rightarrow> ProjectAnalysis \<Rightarrow> PlanResponse \<Rightarrow> js_error + VideoScene list" where
  "planScenes rnd an response =
     (case response of
        Rejected e \<Rightarrow> Inl e
      | NoText \<Rightarrow> Inl (Error ''Failed to plan scenes'')
      | Unparsable \<Rightarrow> Inl SyntaxError
      | Parsed None \<Rightarrow> Inl TypeError
      | Parsed (Some raws) \<Rightarrow>
          Inr (fst (plan_scenes rnd 0 (videoMode (visualIdentity an)) raws)))"

section \<open>Requests to the generative service (src/services/geminiService.ts)\<close>

text \<open>
  The result of an awaited call: it rejects with an error whose \<^verbatim>\<open>message\<close> may be
  missing, or it resolves with a value.
\<close>

datatype 'a outcome = Throws "string option" | Returns 'a

text \<open>
  The parts of an image request. The text prompt is a template; it is represented by the
  values the template interpolates, the last one being whether the continuity instruction
  is included.
\<close>

record ImagePrompt =
  prompt_subject :: string
  prompt_deity :: string
  prompt_action :: string
  prompt_narrative :: string
  prompt_style :: string
  prompt_mood :: string
  prompt_continuity :: bool

datatype part = InlineData string "string option" | TextPart ImagePrompt

record SceneContext =
  context_lyrics :: string
  context_narrative :: string

text \<open>
  \<^verbatim>\<open>if (url) parts.push({inlineData: {mimeType: 'image/png', data: url.split(',')[1]}})\<close>
\<close>

definition reference_part :: "string option \<Rightarrow> part list" where
  "reference_part url =
     (case url of
        None \<Rightarrow> []
      | Some u \<Rightarrow> if u = [] then [] else [InlineData ''image/png'' (payload u)])"

text \<open>
  \<^verbatim>\<open>generateShotImage\<close>, up to the call of the service: the \<^verbatim>\<open>parts\<close> it sends.
\<close>

definition generateShotImage_parts ::
    "VideoShot \<Rightarrow> ProjectAnalysis \<Rightarrow> SceneContext \<Rightarrow> string option \<Rightarrow> part list" where
  "generateShotImage_parts shot an sceneContext previousShotImageUrl =
     reference_part (heroImage (visualIdentity an))
     @ reference_part previousShotImageUrl
     @ [TextPart
          \<lparr>prompt_subject = characterSheet (visualIdentity an),
           prompt_deity = deity (concept an),
           prompt_action = visualPrompt shot,
           prompt_narrative = context_narrative sceneContext,
           prompt_style = styleDescription (visualIdentity an),
           prompt_mood = mood (concept an),
           prompt_continuity = truthy previousShotImageUrl\<rparr>]"

text \<open>
  \<^verbatim>\<open>generateShotImage\<close>, after the call: the first response part with inline data gives
  the data URL; with none, \<^verbatim>\<open>Error("No image generated")\<close> is thrown. A response part is
  its inline data, or \<open>None\<close> when it has none.
\<close>

fun first_inline :: "string option list \<Rightarrow> string option" where
  "first_inline [] = None"
| "first_inline (None # ps) = first_inline ps"
| "first_inline (Some d # ps) = Some d"

definition generateShotImage_result :: "string option list outcome \<Rightarrow> string outcome" where
  "generateShotImage_result response =
     (case response of
        Throws m \<Rightarrow> Throws m
      | Returns ps \<Rightarrow>
          (case first_inline ps of
             None \<Rightarrow> Throws (Some ''No image generated'')
           | Some d \<Rightarrow> Returns (''data:image/png;base64,'' @ d)))"

text \<open>
  \<^verbatim>\<open>generateShotVideo\<close>, up to the call of \<^verbatim>\<open>ai.models.generateVideos\<close>: the request,
  with the \<^verbatim>\<open>config\<close> object's fields inlined.
\<close>

record FrameImage =
  imageBytes :: "string option"
  mimeType :: string

record VideoRequest =
  request_model :: string
  request_prompt :: string
  request_image :: FrameImage
  numberOfVideos :: nat
  resolution :: string
  aspectRatio :: string
  lastFrame :: "FrameImage option"

definition generateShotVideo_request :: "VideoShot \<Rightarrow> string \<Rightarrow> string option \<Rightarrow> VideoRequest" where
  "generateShotVideo_request shot imageBase64 nextShotImageBase64 =
     \<lparr>request_model = ''veo-3.1-fast-generate-preview'',
      request_prompt =
        (if motionPrompt shot = [] then ''Cinematic camera movement'' else motionPrompt shot),
      request_image = \<lparr>imageBytes = payload imageBase64, mimeType = ''image/png''\<rparr>,
      numberOfVideos = 1,
      resolution = ''720p'',
      aspectRatio = ''16:9'',
      lastFrame =
        (case nextShotImageBase64 of
           None \<Rightarrow> None
         | Some n \<Rightarrow>
             if useNextAsEndFrame shot \<and> n \<noteq> []
             then Some \<lparr>imageBytes = payload n, mimeType = ''image/png''\<rparr>
             else None)\<rparr>"

section \<open>Application state and its updates (App, src/unnamed/part_001)\<close>

text \<open>
  The state of the \<^verbatim>\<open>App\<close> component: the \<^verbatim>\<open>ProjectState\<close> fields the orchestrator
  reads (\<open>audioFile\<close> is whether a file is loaded; the audio URL and the chat history are
  left out), and the separate state variables \<^verbatim>\<open>apiKeyVerified\<close>, \<^verbatim>\<open>loading\<close> and
  \<^verbatim>\<open>error\<close> (written \<open>app_error\<close>).
\<close>

record AppState =
  audioFile :: bool
  analysis :: "ProjectAnalysis option"
  scenes :: "VideoScene list"
  apiKeyVerified :: bool
  loading :: bool
  app_error :: "string option"

text \<open>
  \<^verbatim>\<open>Partial<VideoShot>\<close>: every key may be absent (\<open>None\<close>). A present key of an optional
  field carries the field's value, which may be \<^verbatim>\<open>undefined\<close>
  (\<^verbatim>\<open>{ error: undefined }\<close> is \<open>upd_error = Some None\<close>).
\<close>

record ShotUpdates =
  upd_id :: "string option"
  upd_duration :: "int option"
  upd_visualPrompt :: "string option"
  upd_motionPrompt :: "string option"
  upd_imageUrl :: "string option option"
  upd_imageStatus :: "GenerationStatus option"
  upd_videoUrl :: "string option option"
  upd_videoStatus :: "GenerationStatus option"
  upd_useNextAsEndFrame :: "bool option"
  upd_error :: "string option option"

definition no_updates :: ShotUpdates where
  "no_updates =
     \<lparr>upd_id = None, upd_duration = None, upd_visualPrompt = None, upd_motionPrompt = None,
      upd_imageUrl = None, upd_imageStatus = None, upd_videoUrl = None,
      upd_videoStatus = None, upd_useNextAsEndFrame = None, upd_error = None\<rparr>"

text \<open>
  \<^verbatim>\<open>{ ...shot, ...updates }\<close>
\<close>

definition override :: "'a \<Rightarrow> 'a option \<Rightarrow> 'a" where
  "override old new = (case new of None \<Rightarrow> old | Some v \<Rightarrow> v)"

definition spread :: "VideoShot \<Rightarrow> ShotUpdates \<Rightarrow> VideoShot" where
  "spread shot updates =
     \<lparr>shot_id = override (shot_id shot) (upd_id updates),
      duration = override (duration shot) (upd_duration updates),
      visualPrompt = override (visualPrompt shot) (upd_visualPrompt updates),
      motionPrompt = override (motionPrompt shot) (upd_motionPrompt updates),
      imageUrl = override (imageUrl shot) (upd_imageUrl updates),
      imageStatus = override (imageStatus shot) (upd_imageStatus updates),
      videoUrl = override (videoUrl shot) (upd_videoUrl updates),
      videoStatus = override (videoStatus shot) (upd_videoStatus updates),
      useNextAsEndFrame = override (useNextAsEndFrame shot) (upd_useNextAsEndFrame updates),
      shot_error = override (shot_error shot) (upd_error updates)\<rparr>"

text \<open>
  \<^verbatim>\<open>updateShot(sceneId, shotId, updates)\<close>, as the function it passes to \<^verbatim>\<open>setState\<close>,
  on the scene list.
\<close>

definition updateShot :: "VideoScene list \<Rightarrow> string \<Rightarrow> string \<Rightarrow> ShotUpdates \<Rightarrow> VideoScene list" where
  "updateShot scs sceneId shotId updates =
     map (\<lambda>scene.
            if scene_id scene \<noteq> sceneId then scene
            else scene\<lparr>shots :=
                   map (\<lambda>shot. if shot_id shot = shotId then spread shot updates else shot)
                     (shots scene)\<rparr>)
       scs"

text \<open>
  \<^verbatim>\<open>findShot(sceneId, shotId)\<close>
\<close>

definition findShot :: "VideoScene list \<Rightarrow> string \<Rightarrow> string \<Rightarrow> VideoShot option" where
  "findShot scs sceneId shotId =
     (case find (\<lambda>s. scene_id s = sceneId) scs of
        None \<Rightarrow> None
      | Some scene \<Rightarrow> find (\<lambda>s. shot_id s = shotId) (shots scene))"

section \<open>Handlers as sequences of actions (App, src/unnamed/part_001)\<close>

text \<open>
  A handler is modelled by the calls it makes, in order: the state setters, the calls of
  the host's key selection and of the generative service, and \<^verbatim>\<open>console.error\<close>. A
  handler that awaits the service has two halves: what it does up to the call, computed
  from the state it was invoked in, and what it does when the call has settled.
\<close>

datatype action =
    UpdateShot string string ShotUpdates
  | SetError "string option"
  | SetApiKeyVerified bool
  | SetLoading bool
  | SetAudioFile
  | SetAnalysis ProjectAnalysis
  | SetAnalysisAndScenes ProjectAnalysis "VideoScene list"
  | ResetProject
  | OpenSelectKey
  | GenerateContent "part list"
  | GenerateVideos VideoRequest
  | ConsoleError

fun apply_action :: "AppState \<Rightarrow> action \<Rightarrow> AppState" where
  "apply_action st (UpdateShot sceneId shotId updates) =
     st\<lparr>scenes := updateShot (scenes st) sceneId shotId updates\<rparr>"
| "apply_action st (SetError m) = st\<lparr>app_error := m\<rparr>"
| "apply_action st (SetApiKeyVerified b) = st\<lparr>apiKeyVerified := b\<rparr>"
| "apply_action st (SetLoading b) = st\<lparr>loading := b\<rparr>"
| "apply_action st SetAudioFile = st\<lparr>audioFile := True\<rparr>"
| "apply_action st (SetAnalysis an) = st\<lparr>analysis := Some an\<rparr>"
| "apply_action st (SetAnalysisAndScenes an scs) = st\<lparr>analysis := Some an, scenes := scs\<rparr>"
| "apply_action st ResetProject = st\<lparr>audioFile := False, analysis := None, scenes := []\<rparr>"
| "apply_action st OpenSelectKey = st"
| "apply_action st (GenerateContent ps) = st"
| "apply_action st (GenerateVideos r) = st"
| "apply_action st ConsoleError = st"

definition exec :: "AppState \<Rightarrow> action list \<Rightarrow> AppState" where
  "exec st acts = foldl apply_action st acts"

definition initial_state :: AppState where
  "initial_state =
     \<lparr>audioFile = False, analysis = None, scenes = [], apiKeyVerified = False,
      loading = False, app_error = None\<rparr>"

text \<open>
  How an awaited call of the host settles: it resolves, it rejects, or it never settles.
\<close>

datatype promise = Resolves | Rejects | Pending

text \<open>
  \<^verbatim>\<open>handleSelectKey\<close>. The argument is the host's \<^verbatim>\<open>window.aistudio.openSelectKey\<close>: \<open>None\<close>
  when the host does not provide it, and otherwise how its call settles. The result is the
  calls made and how the handler's own promise settles: the setter runs only once the
  awaited call has resolved, and nothing catches a rejection.
\<close>

definition handleSelectKey :: "promise option \<Rightarrow> action list \<times> promise" where
  "handleSelectKey aistudio =
     (case aistudio of
        None \<Rightarrow> ([], Resolves)
      | Some settled \<Rightarrow>
          (OpenSelectKey # (if settled = Resolves then [SetApiKeyVerified True] else []),
           settled))"

text \<open>
  \<^verbatim>\<open>handleGenerateImage\<close>. \<open>None\<close> is the early \<^verbatim>\<open>return\<close>.
\<close>

definition previous_shot_url :: "AppState \<Rightarrow> ProjectAnalysis \<Rightarrow> string \<Rightarrow> string \<Rightarrow> string option" where
  "previous_shot_url st an sceneId shotId =
     (case getPreviousShot (scenes st) sceneId shotId of
        None \<Rightarrow> None
      | Some prev \<Rightarrow>
          if videoMode (visualIdentity an) = cinematic \<and> truthy (imageUrl prev)
          then imageUrl prev else None)"

definition handleGenerateImage_dispatch :: "AppState \<Rightarrow> string \<Rightarrow> string \<Rightarrow> action list option" where
  "handleGenerateImage_dispatch st sceneId shotId =
     (case findShot (scenes st) sceneId shotId of
        None \<Rightarrow> None
      | Some shot \<Rightarrow>
          (case analysis st of
             None \<Rightarrow> None
           | Some an \<Rightarrow>
               (case find (\<lambda>s. scene_id s = sceneId) (scenes st) of
                  None \<Rightarrow> None
                | Some scene \<Rightarrow>
                    Some
                      [UpdateShot sceneId shotId
                         (no_updates\<lparr>upd_imageStatus := Some LOADING, upd_error := Some None\<rparr>),
                       GenerateContent
                         (generateShotImage_parts shot an
                            \<lparr>context_lyrics = lyrics scene,
                             context_narrative = narrativeDescription scene\<rparr>
                            (previous_shot_url st an sceneId shotId))])))"

definition handleGenerateImage_settle :: "string \<Rightarrow> string \<Rightarrow> string outcome \<Rightarrow> action list" where
  "handleGenerateImage_settle sceneId shotId result =
     (case result of
        Returns url \<Rightarrow>
          [UpdateShot sceneId shotId
             (no_updates\<lparr>upd_imageUrl := Some (Some url), upd_imageStatus := Some SUCCESS\<rparr>)]
      | Throws m \<Rightarrow>
          [ConsoleError,
           UpdateShot sceneId shotId (no_updates\<lparr>upd_imageStatus := Some ERROR\<rparr>),
           SetError (Some (''Image generation failed for shot '' @ shotId))])"

definition handleGenerateImage ::
    "AppState \<Rightarrow> string \<Rightarrow> string \<Rightarrow> string option list outcome \<Rightarrow> action list" where
  "handleGenerateImage st sceneId shotId response =
     (case handleGenerateImage_dispatch st sceneId shotId of
        None \<Rightarrow> []
      | Some acts \<Rightarrow>
          acts @ handleGenerateImage_settle sceneId shotId (generateShotImage_result response))"

text \<open>
  \<^verbatim>\<open>handleGenerateVideo\<close>. \<open>None\<close> is the early \<^verbatim>\<open>return\<close>. The handler awaits
  \<^verbatim>\<open>handleSelectKey()\<close> outside its \<^verbatim>\<open>try\<close> when the key is not verified: when that does not
  resolve, the handler ends there, before its first update and with no request. The
  awaited \<^verbatim>\<open>generateShotVideo\<close> polls the operation with no bound; its result is taken as
  given, and a call that never settles has no second half.
\<close>

definition key_check :: "promise option \<Rightarrow> AppState \<Rightarrow> action list \<times> promise" where
  "key_check aistudio st =
     (if \<not> apiKeyVerified st then handleSelectKey aistudio else ([], Resolves))"

definition next_image :: "AppState \<Rightarrow> VideoShot \<Rightarrow> string \<Rightarrow> string \<Rightarrow> string option" where
  "next_image st shot sceneId shotId =
     (if useNextAsEndFrame shot then
        (case getNextShot (scenes st) sceneId shotId of
           None \<Rightarrow> None
         | Some nxt \<Rightarrow> if truthy (imageUrl nxt) then imageUrl nxt else None)
      else None)"

definition handleGenerateVideo_dispatch ::
    "promise option \<Rightarrow> AppState \<Rightarrow> string \<Rightarrow> string \<Rightarrow> action list option" where
  "handleGenerateVideo_dispatch aistudio st sceneId shotId =
     (case findShot (scenes st) sceneId shotId of
        None \<Rightarrow> None
      | Some shot \<Rightarrow>
          (case imageUrl shot of
             None \<Rightarrow> None
           | Some url \<Rightarrow>
               if url = [] then None
               else Some
                 (fst (key_check aistudio st)
                  @ (if snd (key_check aistudio st) = Resolves
                     then [UpdateShot sceneId shotId
                             (no_updates\<lparr>upd_videoStatus := Some LOADING,
                                upd_error := Some None\<rparr>),
                           GenerateVideos
                             (generateShotVideo_request shot url
                                (next_image st shot sceneId shotId))]
                     else []))))"

text \<open>
  \<^verbatim>\<open>err.message?.includes(sub)\<close> and the interpolation \<^verbatim>\<open>${err.message}\<close>.
\<close>

definition message_includes :: "string option \<Rightarrow> string \<Rightarrow> bool" where
  "message_includes m sub = (case m of None \<Rightarrow> False | Some s \<Rightarrow> js_includes s sub)"

definition interpolate :: "string option \<Rightarrow> string" where
  "interpolate m = (case m of None \<Rightarrow> ''undefined'' | Some s \<Rightarrow> s)"

text \<open>
  The test of the \<^verbatim>\<open>catch\<close> branch of \<^verbatim>\<open>handleGenerateVideo\<close>:
  \<^verbatim>\<open>err.message?.includes('Requested entity was not found') || err.message?.includes('404')\<close>
\<close>

definition credential_signature :: "string option \<Rightarrow> bool" where
  "credential_signature m =
     (message_includes m ''Requested entity was not found'' \<or> message_includes m ''404'')"

text \<open>
  The second half of \<^verbatim>\<open>handleGenerateVideo\<close>. In the \<^verbatim>\<open>catch\<close> branch of the credential
  failure, \<^verbatim>\<open>handleSelectKey()\<close> is awaited with no \<^verbatim>\<open>try\<close> around it: the update of the
  shot and the message come after it, and only when it has resolved. The first argument
  is the host's key selection at that second call.
\<close>

definition handleGenerateVideo_settle ::
    "promise option \<Rightarrow> string \<Rightarrow> string \<Rightarrow> string outcome \<Rightarrow> action list" where
  "handleGenerateVideo_settle aistudio sceneId shotId result =
     (case result of
        Returns url \<Rightarrow>
          [UpdateShot sceneId shotId
             (no_updates\<lparr>upd_videoUrl := Some (Some url), upd_videoStatus := Some SUCCESS\<rparr>)]
      | Throws m \<Rightarrow>
          ConsoleError #
          (if credential_signature m
           then [SetApiKeyVerified False] @ fst (handleSelectKey aistudio)
                @ (if snd (handleSelectKey aistudio) = Resolves
                   then [UpdateShot sceneId shotId
                           (no_updates\<lparr>upd_videoStatus := Some ERROR\<rparr>),
                         SetError (Some ''Key verification lost. Please try again.'')]
                   else [])
           else [UpdateShot sceneId shotId (no_updates\<lparr>upd_videoStatus := Some ERROR\<rparr>),
                 SetError (Some (''Video generation failed: '' @ interpolate m))]))"

text \<open>
  The whole handler: the second half follows when the request was sent. The two hosts are
  the key selection at the first and at the second call of \<^verbatim>\<open>handleSelectKey\<close>.
\<close>

definition handleGenerateVideo ::
    "promise option \<Rightarrow> promise option \<Rightarrow> AppState \<Rightarrow> string \<Rightarrow> string \<Rightarrow> string outcome
       \<Rightarrow> action list" where
  "handleGenerateVideo aistudio aistudio' st sceneId shotId result =
     (case handleGenerateVideo_dispatch aistudio st sceneId shotId of
        None \<Rightarrow> []
      | Some acts \<Rightarrow>
          acts @ (if snd (key_check aistudio st) = Resolves
                  then handleGenerateVideo_settle aistudio' sceneId shotId result
                  else []))"

text \<open>
  \<^verbatim>\<open>handleFileUpload\<close>: the analysis of the audio gives the concept; the initial analysis
  takes the suggested look or the defaults, and starts in montage mode with no scenes.
\<close>

definition or_default :: "string option \<Rightarrow> string \<Rightarrow> string" where
  "or_default v d = (case v of None \<Rightarrow> d | Some s \<Rightarrow> if s = [] then d else s)"

definition initialAnalysis :: "ProjectConcept \<Rightarrow> ProjectAnalysis" where
  "initialAnalysis c =
     \<lparr>concept = c,
      visualIdentity =
        \<lparr>styleDescription =
           or_default (map_option artStyle (visualSuggestions c))
             ''Hyper-realistic, cinematic lighting, shot on 35mm film.'',
         characterSheet =
           or_default (map_option physicalDescription (visualSuggestions c))
             (''Divine appearance of '' @ deity c @ '', traditional attire, ethereal aura.''),
         colorPalette =
           or_default (map_option suggestedPalette (visualSuggestions c))
             ''Gold, Deep Blue, Warm Orange'',
         videoMode = montage,
         heroImage = None\<rparr>,
      targetDuration = 8\<rparr>"

definition handleFileUpload_dispatch :: "action list" where
  "handleFileUpload_dispatch = [SetLoading True, SetError None, SetAudioFile]"

definition handleFileUpload_settle :: "ProjectConcept outcome \<Rightarrow> action list" where
  "handleFileUpload_settle result =
     (case result of
        Returns c \<Rightarrow> [SetAnalysisAndScenes (initialAnalysis c) []]
      | Throws m \<Rightarrow> [SetError (Some (or_default m ''Failed to analyze audio.''))])
     @ [SetLoading False]"

text \<open>
  \<^verbatim>\<open>handleRegenerateStructure\<close>: the awaited \<^verbatim>\<open>planScenes\<close> gives the scene list that
  replaces the old one, together with the analysis it was planned for.
\<close>

definition handleRegenerateStructure_dispatch :: "AppState \<Rightarrow> action list option" where
  "handleRegenerateStructure_dispatch st =
     (if \<not> audioFile st then None else Some [SetLoading True, SetError None])"

definition handleRegenerateStructure_settle ::
    "ProjectAnalysis \<Rightarrow> VideoScene list outcome \<Rightarrow> action list" where
  "handleRegenerateStructure_settle updatedAnalysis result =
     (case result of
        Returns scs \<Rightarrow> [SetAnalysisAndScenes updatedAnalysis scs]
      | Throws m \<Rightarrow> [SetError (Some (''Failed to regenerate structure: '' @ interpolate m))])
     @ [SetLoading False]"

text \<open>
  \<^verbatim>\<open>handleAnalysisConfirmed\<close>, \<^verbatim>\<open>resetProject\<close> (once confirmed), the key check of the
  mount effect, and the button that dismisses the error. The argument of the key check is
  the host's \<^verbatim>\<open>window.aistudio.hasSelectedApiKey\<close>: \<open>None\<close> when the host does not provide it,
  and otherwise what its awaited call resolves to, \<open>None\<close> when it does not resolve.
\<close>

definition handleAnalysisConfirmed :: "ProjectAnalysis \<Rightarrow> action list" where
  "handleAnalysisConfirmed updatedAnalysis = [SetAnalysis updatedAnalysis]"

definition resetProject :: "action list" where
  "resetProject = [ResetProject]"

definition checkKey :: "bool option option \<Rightarrow> action list" where
  "checkKey aistudio =
     (case aistudio of
        None \<Rightarrow> [SetApiKeyVerified True]
      | Some None \<Rightarrow> []
      | Some (Some hasKey) \<Rightarrow> [SetApiKeyVerified hasKey])"

definition dismissError :: "action list" where
  "dismissError = [SetError None]"

section \<open>Controls of the storyboard view (src/components/Storyboard.tsx)\<close>

definition isGenerating :: "VideoShot \<Rightarrow> bool" where
  "isGenerating shot = (imageStatus shot = LOADING \<or> videoStatus shot = LOADING)"

text \<open>
  The \<^verbatim>\<open>disabled\<close> attribute of the two buttons of a shot card.
\<close>

definition generateImage_disabled :: "VideoShot \<Rightarrow> bool" where
  "generateImage_disabled shot = isGenerating shot"

definition generateVideo_disabled :: "VideoShot \<Rightarrow> bool" where
  "generateVideo_disabled shot = (\<not> truthy (imageUrl shot) \<or> isGenerating shot)"

text \<open>
  The three edits of a shot card: the two prompt fields and the continuity toggle.
\<close>

definition edit_visualPrompt :: "string \<Rightarrow> string \<Rightarrow> string \<Rightarrow> action list" where
  "edit_visualPrompt sceneId shotId v =
     [UpdateShot sceneId shotId (no_updates\<lparr>upd_visualPrompt := Some v\<rparr>)]"

definition edit_motionPrompt :: "string \<Rightarrow> string \<Rightarrow> string \<Rightarrow> action list" where
  "edit_motionPrompt sceneId shotId v =
     [UpdateShot sceneId shotId (no_updates\<lparr>upd_motionPrompt := Some v\<rparr>)]"

definition edit_useNextAsEndFrame :: "string \<Rightarrow> string \<Rightarrow> bool \<Rightarrow> action list" where
  "edit_useNextAsEndFrame sceneId shotId checked =
     [UpdateShot sceneId shotId (no_updates\<lparr>upd_useNextAsEndFrame := Some checked\<rparr>)]"

section \<open>Reachable states\<close>

text \<open>
  \<open>handler_run st acts\<close>: a handler invoked in state \<open>st\<close> makes the calls \<open>acts\<close>, up to
  its awaited call or after it has settled. The service's answers are arbitrary.
\<close>

inductive handler_run :: "AppState \<Rightarrow> action list \<Rightarrow> bool" where
  upload_dispatch: "handler_run st handleFileUpload_dispatch"
| upload_settle: "handler_run st (handleFileUpload_settle result)"
| plan_dispatch:
    "handleRegenerateStructure_dispatch st = Some acts \<Longrightarrow> handler_run st acts"
| plan_settle:
    "planScenes rnd an response = Inr scs \<Longrightarrow>
     handler_run st (handleRegenerateStructure_settle an (Returns scs))"
| plan_fail: "handler_run st (handleRegenerateStructure_settle an (Throws m))"
| analysis_confirmed: "handler_run st (handleAnalysisConfirmed an)"
| reset: "handler_run st resetProject"
| check_key: "handler_run st (checkKey aistudio)"
| select_key: "handler_run st (fst (handleSelectKey aistudio))"
| dismiss: "handler_run st dismissError"
| visual_edit: "handler_run st (edit_visualPrompt sceneId shotId v)"
| motion_edit: "handler_run st (edit_motionPrompt sceneId shotId v)"
| toggle_edit: "handler_run st (edit_useNextAsEndFrame sceneId shotId checked)"
| image_dispatch:
    "handleGenerateImage_dispatch st sceneId shotId = Some acts \<Longrightarrow> handler_run st acts"
| image_settle:
    "handler_run st (handleGenerateImage_settle sceneId shotId (generateShotImage_result response))"
| video_dispatch:
    "handleGenerateVideo_dispatch aistudio st sceneId shotId = Some acts \<Longrightarrow>
     handler_run st acts"
| video_settle:
    "handler_run st (handleGenerateVideo_settle aistudio sceneId shotId result)"

text \<open>
  The calls of the handlers interleave: a handler reads the state it was invoked in
  (\<open>snapshot\<close>), and each of its state updates applies to the state current at that
  moment. A state is reachable when it is the initial one, or a reachable state after one
  call of a handler that was invoked in a reachable state. This admits every order in
  which the awaited calls of several handlers may settle, and every handler that ends
  early, at an awaited call that rejects or never settles (and more: a second half may run
  with no first half before it), so what holds of every reachable state holds of every
  state of the application.
\<close>

inductive reachable :: "AppState \<Rightarrow> bool" where
  initial: "reachable initial_state"
| action:
    "reachable snapshot \<Longrightarrow> handler_run snapshot acts \<Longrightarrow> a \<in> set acts \<Longrightarrow>
     reachable st \<Longrightarrow> reachable (apply_action st a)"

section \<open>Predicates of the specification\<close>

text \<open>
  The identifier given to a planned scene or shot: the upstream one when it is there (and
  not empty), a value of the random expression otherwise.
\<close>

definition id_assigned :: "(nat \<Rightarrow> string) \<Rightarrow> string option \<Rightarrow> string \<Rightarrow> bool" where
  "id_assigned rnd upstream i =
     (if truthy upstream then upstream = Some i else i \<in> range rnd)"

text \<open>
  The state of a shot that has just been planned from an upstream shot: both statuses at
  Idle, the continuity flag of the mode, the id assigned, and the two URLs as the upstream
  shot has them.
\<close>

definition freshly_planned :: "(nat \<Rightarrow> string) \<Rightarrow> VideoMode \<Rightarrow> RawShot \<Rightarrow> VideoShot \<Rightarrow> bool" where
  "freshly_planned rnd mode raw shot =
     (imageStatus shot = IDLE \<and> videoStatus shot = IDLE
      \<and> useNextAsEndFrame shot = (mode = cinematic)
      \<and> id_assigned rnd (raw_shot_id raw) (shot_id shot)
      \<and> imageUrl shot = raw_imageUrl raw \<and> videoUrl shot = raw_videoUrl raw)"

definition scene_planned :: "(nat \<Rightarrow> string) \<Rightarrow> VideoMode \<Rightarrow> RawScene \<Rightarrow> VideoScene \<Rightarrow> bool" where
  "scene_planned rnd mode raw sc =
     (id_assigned rnd (raw_scene_id raw) (scene_id sc)
      \<and> list_all2 (freshly_planned rnd mode) (raw_shot_list raw) (shots sc))"

text \<open>
  The invariant of the two media of a shot, in the form the orchestrator's guards use it
  (an image URL that is set and not empty), and the updates and actions that keep it.
\<close>

definition media_consistent :: "VideoShot \<Rightarrow> bool" where
  "media_consistent shot =
     ((imageStatus shot = SUCCESS \<longrightarrow> truthy (imageUrl shot))
      \<and> (videoStatus shot = SUCCESS \<longrightarrow> videoUrl shot \<noteq> None))"

definition timeline_consistent :: "VideoScene list \<Rightarrow> bool" where
  "timeline_consistent scs = list_all (\<lambda>sc. list_all media_consistent (shots sc)) scs"

definition safe_updates :: "ShotUpdates \<Rightarrow> bool" where
  "safe_updates u =
     ((case upd_imageStatus u of
         None \<Rightarrow> (case upd_imageUrl u of None \<Rightarrow> True | Some v \<Rightarrow> truthy v)
       | Some s \<Rightarrow> s \<noteq> SUCCESS \<or> (case upd_imageUrl u of None \<Rightarrow> False | Some v \<Rightarrow> truthy v))
      \<and> (case upd_videoStatus u of
         None \<Rightarrow> (case upd_videoUrl u of None \<Rightarrow> True | Some v \<Rightarrow> v \<noteq> None)
       | Some s \<Rightarrow> s \<noteq> SUCCESS \<or> (case upd_videoUrl u of None \<Rightarrow> False | Some v \<Rightarrow> v \<noteq> None)))"

fun safe_action :: "action \<Rightarrow> bool" where
  "safe_action (UpdateShot sceneId shotId u) = safe_updates u"
| "safe_action (SetAnalysisAndScenes an scs) = timeline_consistent scs"
| "safe_action a = True"

text \<open>
  \<open>occurs_before a b acts\<close>: the call \<open>a\<close> is made before the first call \<open>b\<close>, and \<open>b\<close> is
  made.
\<close>

definition occurs_before :: "action \<Rightarrow> action \<Rightarrow> action list \<Rightarrow> bool" where
  "occurs_before a b acts = (a \<in> set (takeWhile (\<lambda>x. x \<noteq> b) acts) \<and> b \<in> set acts)"

section \<open>Example projects\<close>

definition example_shot ::
    "string \<Rightarrow> string \<Rightarrow> string option \<Rightarrow> GenerationStatus \<Rightarrow> bool \<Rightarrow> VideoShot" where
  "example_shot i p url status morph =
     \<lparr>shot_id = i, duration = 5, visualPrompt = p,
      motionPrompt = ''slow zoom in'', imageUrl = url, imageStatus = status,
      videoUrl = None, videoStatus = IDLE, useNextAsEndFrame = morph, shot_error = None\<rparr>"

definition example_scene :: "string \<Rightarrow> VideoShot list \<Rightarrow> VideoScene" where
  "example_scene i ss =
     \<lparr>scene_id = i, sectionLabel = ''Verse'', startTime = ''00:00'', endTime = ''00:15'',
      lyrics = ''om'', narrativeDescription = ''the deity appears'', shots = ss\<rparr>"

text \<open>
  The timeline of the specification's scenarios: scene A with the shots S1 and S2, scene B
  with the shot S3; and the same with an empty scene in the middle.
\<close>

definition S1 :: VideoShot where "S1 = example_shot ''S1'' ''dawn'' None IDLE False"
definition S2 :: VideoShot where "S2 = example_shot ''S2'' ''river'' None IDLE False"
definition S3 :: VideoShot where "S3 = example_shot ''S3'' ''temple'' None IDLE False"

definition timeline_AB :: "VideoScene list" where
  "timeline_AB = [example_scene ''A'' [S1, S2], example_scene ''B'' [S3]]"

definition timeline_gap :: "VideoScene list" where
  "timeline_gap = [example_scene ''A'' [S1], example_scene ''E'' [], example_scene ''B'' [S2]]"

text \<open>
  A timeline whose shots are numbered within each scene: every pair of scene id and shot
  id is unique, and the shot ids repeat from scene to scene.
\<close>

definition A1 :: VideoShot where "A1 = example_shot ''shot-1'' ''dawn'' None IDLE False"
definition A2 :: VideoShot where "A2 = example_shot ''shot-2'' ''river'' None IDLE False"
definition B1 :: VideoShot where "B1 = example_shot ''shot-1'' ''temple'' None IDLE False"
definition B2 :: VideoShot where "B2 = example_shot ''shot-2'' ''dance'' None IDLE False"

definition timeline_numbered :: "VideoScene list" where
  "timeline_numbered = [example_scene ''A'' [A1, A2], example_scene ''B'' [B1, B2]]"

text \<open>
  A run of the application that reaches such timelines: the upload, the plan of an
  upstream response, and image generations.
\<close>

definition example_rnd :: "nat \<Rightarrow> string" where
  "example_rnd k = replicate (Suc k) (CHR ''z'')"

definition example_concept :: ProjectConcept where
  "example_concept =
     \<lparr>title = ''Tandava'', language = ''Sanskrit'', deity = ''Shiva'', mood = ''fierce'',
      theme = ''cosmic dance'', visualSuggestions = None\<rparr>"

definition example_analysis :: "VideoMode \<Rightarrow> ProjectAnalysis" where
  "example_analysis mode =
     \<lparr>concept = example_concept,
      visualIdentity =
        \<lparr>styleDescription = ''35mm film'', characterSheet = ''blue skin, matted hair'',
         colorPalette = ''gold'', videoMode = mode,
         heroImage = Some ''data:image/png;base64,SEVSTw==''\<rparr>,
      targetDuration = 8\<rparr>"

definition raw_shot :: "string option \<Rightarrow> string \<Rightarrow> RawShot" where
  "raw_shot i p =
     \<lparr>raw_shot_id = i, raw_duration = 5, raw_visualPrompt = p,
      raw_motionPrompt = ''slow zoom in'', raw_imageUrl = None, raw_videoUrl = None,
      raw_error = None\<rparr>"

text \<open>
  An upstream shot that is not of the response schema: it carries an image URL.
\<close>

definition raw_shot_with_image :: "string option \<Rightarrow> string \<Rightarrow> string \<Rightarrow> RawShot" where
  "raw_shot_with_image i p url = (raw_shot i p)\<lparr>raw_imageUrl := Some url\<rparr>"

definition raw_scene :: "string option \<Rightarrow> RawShot list option \<Rightarrow> RawScene" where
  "raw_scene i rs =
     \<lparr>raw_scene_id = i, raw_sectionLabel = ''Verse'', raw_startTime = ''00:00'',
      raw_endTime = ''00:15'', raw_lyrics = ''om'',
      raw_narrativeDescription = ''the deity appears'', raw_shots = rs\<rparr>"

definition raw_AB :: "RawScene list" where
  "raw_AB =
     [raw_scene (Some ''A'') (Some [raw_shot (Some ''S1'') ''dawn'', raw_shot (Some ''S2'') ''river'']),
      raw_scene (Some ''B'') (Some [raw_shot (Some ''S3'') ''temple''])]"

definition raw_numbered :: "RawScene list" where
  "raw_numbered =
     [raw_scene (Some ''A'')
        (Some [raw_shot (Some ''shot-1'') ''dawn'', raw_shot (Some ''shot-2'') ''river'']),
      raw_scene (Some ''B'')
        (Some [raw_shot (Some ''shot-1'') ''temple'', raw_shot (Some ''shot-2'') ''dance''])]"

text \<open>
  An upstream response whose scene has two shots with the same id.
\<close>

definition raw_twins :: "RawScene list" where
  "raw_twins =
     [raw_scene (Some ''A'')
        (Some [raw_shot (Some ''shot-1'') ''dawn'', raw_shot (Some ''shot-1'') ''river''])]"

definition raw_without_ids :: "RawScene list" where
  "raw_without_ids =
     [raw_scene None (Some [raw_shot None ''dawn'', raw_shot (Some ''S2'') ''river'']),
      raw_scene (Some ''B'') None]"

definition state_uploaded :: AppState where
  "state_uploaded =
     exec (exec initial_state handleFileUpload_dispatch)
       (handleFileUpload_settle (Returns example_concept))"

definition state_planned :: "VideoMode \<Rightarrow> RawScene list \<Rightarrow> AppState" where
  "state_planned mode raws =
     exec (exec state_uploaded [SetLoading True, SetError None])
       (handleRegenerateStructure_settle (example_analysis mode)
          (Returns (fst (plan_scenes example_rnd 0 mode raws))))"

definition image_done :: "AppState \<Rightarrow> string \<Rightarrow> string \<Rightarrow> string \<Rightarrow> AppState" where
  "image_done st sceneId shotId d =
     exec st (handleGenerateImage st sceneId shotId (Returns [Some d]))"

definition image_failed :: "AppState \<Rightarrow> string \<Rightarrow> string \<Rightarrow> AppState" where
  "image_failed st sceneId shotId =
     exec st (handleGenerateImage st sceneId shotId (Throws (Some ''quota exceeded'')))"

text \<open>
  The scenario timeline planned in cinematic mode; then with the image of S2; then with
  the images of S2 and S3; and with an image of S1 whose regeneration failed.
\<close>

definition state_AB :: AppState where
  "state_AB = state_planned cinematic raw_AB"

definition state_AB_S2 :: AppState where
  "state_AB_S2 = image_done state_AB ''A'' ''S2'' ''UklWRVI=''"

definition state_AB_S2_S3 :: AppState where
  "state_AB_S2_S3 = image_done state_AB_S2 ''B'' ''S3'' ''VEVNUExF''"

definition state_AB_S1_stale :: AppState where
  "state_AB_S1_stale = image_failed (image_done state_AB ''A'' ''S1'' ''REFXTg=='') ''A'' ''S1''"

text \<open>
  The numbered timeline planned in cinematic mode, with the image of the second shot of
  scene A; and then also with the image of the first shot of scene B.
\<close>

definition state_numbered_A2 :: AppState where
  "state_numbered_A2 =
     image_done (state_planned cinematic raw_numbered) ''A'' ''shot-2'' ''UklWRVI=''"

definition state_numbered_A2_B1 :: AppState where
  "state_numbered_A2_B1 = image_done state_numbered_A2 ''B'' ''shot-1'' ''VEVNUExF''"

text \<open>
  The scenario timeline planned in montage mode, with the image of S2.
\<close>

definition state_montage_S2 :: AppState where
  "state_montage_S2 = image_done (state_planned montage raw_AB) ''A'' ''S2'' ''UklWRVI=''"

text \<open>
  The response with the two shots of one id, planned in cinematic mode.
\<close>

definition state_twins :: AppState where
  "state_twins = state_planned cinematic raw_twins"
section \<open>Facts and theorems\<close>

subsection \<open>The resolver and the global shot order\<close>

lemma allShots_flatten: "allShots scs = flatten scs"
proof -
  have "foldl (\<lambda>acc s. acc @ shots s) acc scs = acc @ concat (map shots scs)" for acc
    by (induction scs arbitrary: acc) simp_all
  from this [of "[]"] show ?thesis
    by (simp add: allShots_def flatten_def)
qed

lemma findIndex_distinct:
  "distinct (map f xs) \<Longrightarrow> k < length xs \<Longrightarrow> findIndex (\<lambda>s. f s = f (xs ! k)) xs = int k"
proof (induction xs arbitrary: k)
  case Nil
  then show ?case by simp
next
  case (Cons x xs)
  show ?case
  proof (cases k)
    case 0
    then show ?thesis by simp
  next
    case (Suc m)
    with Cons.prems have m: "m < length xs" and d: "distinct (map f xs)"
      and nx: "f x \<notin> f ` set xs" by auto
    from m nx have "f x \<noteq> f (xs ! m)" by (metis imageI nth_mem)
    moreover from Cons.IH [OF d m] have "findIndex (\<lambda>s. f s = f (xs ! m)) xs = int m" .
    ultimately show ?thesis using Suc by (simp add: Let_def)
  qed
qed

lemma flatten_take_Suc:
  "i < length scs \<Longrightarrow> flatten (take (Suc i) scs) = flatten (take i scs) @ shots (scs ! i)"
  by (simp add: take_Suc_conv_app_nth flatten_def)

lemma flatten_split:
  "i < length scs \<Longrightarrow>
   flatten scs = flatten (take i scs) @ shots (scs ! i) @ flatten (drop (Suc i) scs)"
proof -
  assume i: "i < length scs"
  then have "scs = take i scs @ scs ! i # drop (Suc i) scs"
    by (simp add: id_take_nth_drop)
  then have "flatten scs = flatten (take i scs @ scs ! i # drop (Suc i) scs)" by simp
  then show ?thesis by (simp add: flatten_def)
qed

lemma length_flatten_split:
  "i < length scs \<Longrightarrow>
   length (flatten scs) =
   length (flatten (take i scs)) + length (shots (scs ! i)) + length (flatten (drop (Suc i) scs))"
  using arg_cong [OF flatten_split, of i scs length] by simp

lemma flatten_index_less:
  assumes "shot_position scs i j"
  shows "flatten_index scs i j < length (flatten scs)"
proof -
  from assms have i: "i < length scs" and j: "j < length (shots (scs ! i))"
    by (simp_all add: shot_position_def)
  from length_flatten_split [OF i] j show ?thesis by (simp add: flatten_index_def)
qed

lemma nth_flatten:
  assumes "shot_position scs i j"
  shows "flatten scs ! flatten_index scs i j = shot_at scs i j"
proof -
  from assms have i: "i < length scs" and j: "j < length (shots (scs ! i))"
    by (simp_all add: shot_position_def)
  have "flatten scs ! flatten_index scs i j =
        (flatten (take i scs) @ shots (scs ! i) @ flatten (drop (Suc i) scs))
          ! (length (flatten (take i scs)) + j)"
    using arg_cong [OF flatten_split [OF i], of "\<lambda>xs. xs ! flatten_index scs i j"]
    by (simp add: flatten_index_def)
  also have "\<dots> = shots (scs ! i) ! j"
    using j by (simp add: nth_append)
  finally show ?thesis by (simp add: shot_at_def)
qed

lemma flatten_index_next_scene:
  "i < length scs \<Longrightarrow>
   flatten_index scs (Suc i) 0 = flatten_index scs i (length (shots (scs ! i)))"
  by (simp add: flatten_index_def flatten_take_Suc)

lemma every_scene_has_a_shot_nth:
  "every_scene_has_a_shot scs \<Longrightarrow> i < length scs \<Longrightarrow> shots (scs ! i) \<noteq> []"
  by (simp add: every_scene_has_a_shot_def list_all_length)

lemma findIndex_shot_at:
  assumes u: "shot_ids_unique scs" and p: "shot_position scs i j"
  shows "findIndex (\<lambda>s. shot_id s = shot_id (shot_at scs i j)) (flatten scs)
           = int (flatten_index scs i j)"
proof -
  let ?k = "flatten_index scs i j"
  have k: "?k < length (flatten scs)" by (rule flatten_index_less [OF p])
  have "findIndex (\<lambda>s. shot_id s = shot_id (flatten scs ! ?k)) (flatten scs) = int ?k"
    using u k unfolding shot_ids_unique_def by (rule findIndex_distinct)
  then show ?thesis by (simp add: nth_flatten [OF p])
qed

lemma getNextShot_unique:
  assumes u: "shot_ids_unique scs" and p: "shot_position scs i j"
  shows "getNextShot scs sceneId (shot_id (shot_at scs i j)) = global_successor scs i j"
proof -
  let ?k = "flatten_index scs i j"
  note idx = findIndex_shot_at [OF u p]
  have n: "nat (int ?k + 1) = ?k + 1" by simp
  show ?thesis
    unfolding getNextShot_def global_successor_def allShots_flatten Let_def idx n
    by auto
qed

lemma getPreviousShot_unique:
  assumes u: "shot_ids_unique scs" and p: "shot_position scs i j"
  shows "getPreviousShot scs sceneId (shot_id (shot_at scs i j)) = global_predecessor scs i j"
proof -
  let ?k = "flatten_index scs i j"
  note idx = findIndex_shot_at [OF u p]
  have n: "nat (int ?k - 1) = ?k - 1" by simp
  show ?thesis
    unfolding getPreviousShot_def global_predecessor_def allShots_flatten Let_def idx n
    by auto
qed

lemma global_successor_position:
  assumes p: "shot_position scs i j"
    and ne: "i + 1 < length scs \<Longrightarrow> shots (scs ! (i + 1)) \<noteq> []"
  shows "global_successor scs i j =
     (if j + 1 < length (shots (scs ! i)) then Some (shot_at scs i (j + 1))
      else if i + 1 < length scs then Some (shot_at scs (i + 1) 0)
      else None)"
proof -
  from p have i: "i < length scs" and j: "j < length (shots (scs ! i))"
    by (simp_all add: shot_position_def)
  let ?k = "flatten_index scs i j"
  consider (same) "j + 1 < length (shots (scs ! i))"
    | (nxt) "j + 1 = length (shots (scs ! i))" "i + 1 < length scs"
    | (last) "j + 1 = length (shots (scs ! i))" "i + 1 = length scs"
    using i j by linarith
  then show ?thesis
  proof cases
    case same
    then have q: "shot_position scs i (j + 1)" using i by (simp add: shot_position_def)
    have e: "flatten_index scs i (j + 1) = ?k + 1" by (simp add: flatten_index_def)
    have "?k + 1 < length (flatten scs)" "flatten scs ! (?k + 1) = shot_at scs i (j + 1)"
      using flatten_index_less [OF q] nth_flatten [OF q] unfolding e by simp_all
    with same show ?thesis
      unfolding global_successor_def Let_def by simp
  next
    case nxt
    with ne have q: "shot_position scs (i + 1) 0" by (simp add: shot_position_def)
    have e: "flatten_index scs (i + 1) 0 = ?k + 1"
      using flatten_index_next_scene [OF i] nxt(1) by (simp add: flatten_index_def)
    have "?k + 1 < length (flatten scs)" "flatten scs ! (?k + 1) = shot_at scs (i + 1) 0"
      using flatten_index_less [OF q] nth_flatten [OF q] unfolding e by simp_all
    with nxt show ?thesis
      unfolding global_successor_def Let_def by simp
  next
    case last
    then have "drop (Suc i) scs = []" by simp
    then have "length (flatten scs) = ?k + 1"
      using length_flatten_split [OF i] last(1) by (simp add: flatten_index_def flatten_def)
    with last show ?thesis
      unfolding global_successor_def Let_def by simp
  qed
qed

lemma global_predecessor_position:
  assumes p: "shot_position scs i j"
    and ne: "0 < i \<Longrightarrow> shots (scs ! (i - 1)) \<noteq> []"
  shows "global_predecessor scs i j =
     (if 0 < j then Some (shot_at scs i (j - 1))
      else if 0 < i then Some (shot_at scs (i - 1) (length (shots (scs ! (i - 1))) - 1))
      else None)"
proof -
  from p have i: "i < length scs" and j: "j < length (shots (scs ! i))"
    by (simp_all add: shot_position_def)
  let ?k = "flatten_index scs i j"
  consider (same) "0 < j" | (prv) "j = 0" "0 < i" | (first) "j = 0" "i = 0" by linarith
  then show ?thesis
  proof cases
    case same
    then have q: "shot_position scs i (j - 1)" using i j by (simp add: shot_position_def)
    have e: "flatten_index scs i (j - 1) = ?k - 1" and k: "0 < ?k"
      using same by (simp_all add: flatten_index_def)
    have "flatten scs ! (?k - 1) = shot_at scs i (j - 1)"
      using nth_flatten [OF q] unfolding e .
    with same k show ?thesis
      unfolding global_predecessor_def Let_def by simp
  next
    case prv
    let ?m = "length (shots (scs ! (i - 1)))"
    from prv ne have m: "0 < ?m" by simp
    from prv i have i': "i - 1 < length scs" by simp
    with m have q: "shot_position scs (i - 1) (?m - 1)" by (simp add: shot_position_def)
    have "flatten_index scs (Suc (i - 1)) 0 = flatten_index scs (i - 1) ?m"
      by (rule flatten_index_next_scene [OF i'])
    then have "length (flatten (take i scs)) = length (flatten (take (i - 1) scs)) + ?m"
      using prv by (simp add: flatten_index_def)
    with prv m have e: "flatten_index scs (i - 1) (?m - 1) = ?k - 1" and k: "0 < ?k"
      unfolding flatten_index_def by linarith+
    have "flatten scs ! (?k - 1) = shot_at scs (i - 1) (?m - 1)"
      using nth_flatten [OF q] unfolding e .
    with prv k show ?thesis
      unfolding global_predecessor_def Let_def by simp
  next
    case first
    then show ?thesis by (simp add: global_predecessor_def flatten_index_def flatten_def)
  qed
qed

lemma getRelativeShots_position:
  assumes p: "shot_position scs i j"
  shows "getRelativeShots scs (int i) (int j) =
     Inr \<lparr>prevShot =
            (if 0 < j then Some (shot_at scs i (j - 1))
             else if 0 < i \<and> shots (scs ! (i - 1)) \<noteq> []
               then Some (shot_at scs (i - 1) (length (shots (scs ! (i - 1))) - 1))
             else None),
          nextShot =
            (if j + 1 < length (shots (scs ! i)) then Some (shot_at scs i (j + 1))
             else if i + 1 < length scs \<and> shots (scs ! (i + 1)) \<noteq> []
               then Some (shot_at scs (i + 1) 0)
             else None)\<rparr>"
    (is "_ = Inr \<lparr>prevShot = ?P, nextShot = ?N\<rparr>")
proof -
  from p have i: "i < length scs" and j: "j < length (shots (scs ! i))"
    by (simp_all add: shot_position_def)
  have this_scene: "js_nth scs (int i) = Some (scs ! i)" using i by (simp add: js_nth_def)
  have prev0: "js_nth (shots (scs ! i)) (int j - 1) =
      (if 0 < j then Some (shot_at scs i (j - 1)) else None)"
    using j by (auto simp: js_nth_def shot_at_def nat_diff_distrib')
  have prev_scene: "js_nth scs (int i - 1) = Some (scs ! (i - 1))" if "0 < i"
    using i that by (auto simp: js_nth_def nat_diff_distrib')
  have prev_last: "js_nth (shots s) (int (length (shots s)) - 1) =
      (if shots s \<noteq> [] then Some (shots s ! (length (shots s) - 1)) else None)"
    for s :: VideoScene
    by (auto simp: js_nth_def nat_diff_distrib')
  have next0: "js_nth (shots (scs ! i)) (int j + 1) =
      (if j + 1 < length (shots (scs ! i)) then Some (shot_at scs i (j + 1)) else None)"
    by (auto simp: js_nth_def shot_at_def nat_add_distrib)
  have next_scene: "js_nth scs (int i + 1) =
      (if i + 1 < length scs then Some (scs ! (i + 1)) else None)"
    by (auto simp: js_nth_def nat_add_distrib)
  have first: "js_nth (shots s) 0 = (if shots s \<noteq> [] then Some (shots s ! 0) else None)"
    for s :: VideoScene
    by (auto simp: js_nth_def)
  have P: "(if js_nth (shots (scs ! i)) (int j - 1) = None \<and> int i > 0 then
              (case js_nth scs (int i - 1) of
                 None \<Rightarrow> Inl TypeError
               | Some prevScene \<Rightarrow>
                   Inr (js_nth (shots prevScene) (int (length (shots prevScene)) - 1)))
            else Inr (js_nth (shots (scs ! i)) (int j - 1))) = Inr ?P"
  proof (cases "0 < j")
    case True
    then have "js_nth (shots (scs ! i)) (int j - 1) = Some (shot_at scs i (j - 1))"
      using prev0 by simp
    with True show ?thesis by simp
  next
    case False
    then have none: "js_nth (shots (scs ! i)) (int j - 1) = None"
      using prev0 by simp
    show ?thesis
    proof (cases "0 < i")
      case True
      with False show ?thesis
        unfolding none by (simp add: prev_scene prev_last shot_at_def)
    next
      case False
      with \<open>\<not> 0 < j\<close> show ?thesis
        unfolding none by simp
    qed
  qed
  have N: "(if js_nth (shots (scs ! i)) (int j + 1) = None \<and>
               (case js_nth scs (int i + 1) of
                  None \<Rightarrow> None
                | Some nextScene \<Rightarrow> js_nth (shots nextScene) 0) \<noteq> None
            then (case js_nth scs (int i + 1) of
                  None \<Rightarrow> None
                | Some nextScene \<Rightarrow> js_nth (shots nextScene) 0)
            else js_nth (shots (scs ! i)) (int j + 1)) = ?N"
    by (simp add: next0 next_scene first shot_at_def)
  show ?thesis
    unfolding getRelativeShots_def this_scene Let_def option.case P N
    by simp
qed

lemmas example_defs = example_shot_def example_scene_def S1_def S2_def S3_def
  A1_def A2_def B1_def B2_def timeline_AB_def timeline_gap_def timeline_numbered_def

lemmas resolver_defs = getPreviousShot_def getNextShot_def allShots_def
  global_successor_def global_predecessor_def flatten_index_def flatten_def
  shot_position_def shot_at_def every_scene_has_a_shot_def shot_ids_unique_def

text \<open>
  The resolver where the shot ids are globally unique. In a timeline with at least two
  scenes, each with at least one shot, and whose shot ids are globally unique, the
  orchestrator's \<^verbatim>\<open>getNextShot\<close> and \<^verbatim>\<open>getPreviousShot\<close>, called for the shot at position
  \<open>(i, j)\<close>, return the neighbours of that position in the flattened global shot order:
  the element right after it, and the one right before it, when they exist, and nothing
  otherwise.
\<close>

lemma resolver_by_unique_ids:
  assumes "2 \<le> length timeline" and "every_scene_has_a_shot timeline"
    and "shot_ids_unique timeline" and "shot_position timeline i j"
  shows "getNextShot timeline (scene_id (timeline ! i)) (shot_id (shot_at timeline i j))
           = global_successor timeline i j
       \<and> getPreviousShot timeline (scene_id (timeline ! i)) (shot_id (shot_at timeline i j))
           = global_predecessor timeline i j"
  using assms(3,4) by (simp add: getNextShot_unique getPreviousShot_unique)

text \<open>
  The scenario of the specification: in the timeline A = [S1, S2], B = [S3], the shot S2 is
  followed by S3, across the scene boundary, and preceded by S1.
\<close>

lemma resolver_by_unique_ids_example:
  "2 \<le> length timeline_AB \<and> every_scene_has_a_shot timeline_AB
   \<and> shot_ids_unique timeline_AB \<and> shot_position timeline_AB 0 1
   \<and> getNextShot timeline_AB ''A'' ''S2'' = Some S3
   \<and> getPreviousShot timeline_AB ''A'' ''S2'' = Some S1"
proof -
  have h: "2 \<le> length timeline_AB" "every_scene_has_a_shot timeline_AB"
    "shot_ids_unique timeline_AB" "shot_position timeline_AB 0 1"
    by (simp_all add: example_defs resolver_defs)
  have v: "global_successor timeline_AB 0 1 = Some S3"
    "global_predecessor timeline_AB 0 1 = Some S1"
    "scene_id (timeline_AB ! 0) = ''A''" "shot_id (shot_at timeline_AB 0 1) = ''S2''"
    by (simp_all add: example_defs resolver_defs)
  from resolver_by_unique_ids [OF h] h show ?thesis
    unfolding v by simp
qed

text \<open>
  Claim C10. In a timeline in which every scene has at least one shot and all shot ids are
  globally unique, the storyboard's \<^verbatim>\<open>getRelativeShots\<close> at a shot position returns, without
  throwing, the same predecessor and the same successor as the orchestrator's
  \<^verbatim>\<open>getPreviousShot\<close> and \<^verbatim>\<open>getNextShot\<close> for the shot at that position.
\<close>

theorem storyboard_agrees_with_orchestrator:
  assumes ne: "every_scene_has_a_shot timeline" and u: "shot_ids_unique timeline"
    and p: "shot_position timeline i j"
  shows "getRelativeShots timeline (int i) (int j) =
     Inr \<lparr>prevShot = getPreviousShot timeline (scene_id (timeline ! i)) (shot_id (shot_at timeline i j)),
          nextShot = getNextShot timeline (scene_id (timeline ! i)) (shot_id (shot_at timeline i j))\<rparr>"
proof -
  from p have i: "i < length timeline" by (simp add: shot_position_def)
  have prev_ne: "0 < i \<Longrightarrow> shots (timeline ! (i - 1)) \<noteq> []"
    using every_scene_has_a_shot_nth [OF ne, of "i - 1"] i by simp
  have next_ne: "i + 1 < length timeline \<Longrightarrow> shots (timeline ! (i + 1)) \<noteq> []"
    using every_scene_has_a_shot_nth [OF ne, of "i + 1"] by simp
  have "getPreviousShot timeline (scene_id (timeline ! i)) (shot_id (shot_at timeline i j)) =
      (if 0 < j then Some (shot_at timeline i (j - 1))
       else if 0 < i then Some (shot_at timeline (i - 1) (length (shots (timeline ! (i - 1))) - 1))
       else None)"
    using getPreviousShot_unique [OF u p] global_predecessor_position [OF p prev_ne] by simp
  moreover have "getNextShot timeline (scene_id (timeline ! i)) (shot_id (shot_at timeline i j)) =
      (if j + 1 < length (shots (timeline ! i)) then Some (shot_at timeline i (j + 1))
       else if i + 1 < length timeline then Some (shot_at timeline (i + 1) 0)
       else None)"
    using getNextShot_unique [OF u p] global_successor_position [OF p next_ne] by simp
  ultimately show ?thesis
    using getRelativeShots_position [OF p] prev_ne next_ne by auto
qed

text \<open>
  In the timeline A = [S1, S2], B = [S3], both give S2 as the predecessor of S3 and no
  successor.
\<close>

theorem storyboard_agrees_with_orchestrator_witness:
  "every_scene_has_a_shot timeline_AB \<and> shot_ids_unique timeline_AB
   \<and> shot_position timeline_AB 1 0
   \<and> getRelativeShots timeline_AB 1 0 = Inr \<lparr>prevShot = Some S2, nextShot = None\<rparr>
   \<and> getPreviousShot timeline_AB ''B'' ''S3'' = Some S2
   \<and> getNextShot timeline_AB ''B'' ''S3'' = None"
proof -
  have h: "every_scene_has_a_shot timeline_AB" "shot_ids_unique timeline_AB"
    "shot_position timeline_AB 1 0"
    by (simp_all add: example_defs resolver_defs)
  have v: "getPreviousShot timeline_AB ''B'' ''S3'' = Some S2"
    "getNextShot timeline_AB ''B'' ''S3'' = None"
    "scene_id (timeline_AB ! 1) = ''B''" "shot_id (shot_at timeline_AB 1 0) = ''S3''"
    by (simp_all add: example_defs resolver_defs)
  from storyboard_agrees_with_orchestrator [OF h] h v show ?thesis
    by simp
qed

lemma flatten_index_skip_empty:
  assumes "e < length scs" and "shots (scs ! e) = []"
  shows "flatten_index scs (Suc e) 0 = flatten_index scs e 0"
  using flatten_index_next_scene [OF assms(1)] assms(2) by simp

text \<open>
  Claim C2, amended. When an empty scene \<open>e\<close> lies between two scenes that have shots, it
  is the storyboard's \<^verbatim>\<open>getRelativeShots\<close> that breaks the chain there: the last shot of
  the scene before has no next shot, and the first shot of the scene after has no previous
  shot. The orchestrator's \<^verbatim>\<open>getNextShot\<close> and \<^verbatim>\<open>getPreviousShot\<close> work on the flattened
  list, in which the empty scene leaves no trace: with unique shot ids they link the last
  shot before the empty scene and the first shot after it.
\<close>

theorem storyboard_chain_breaks_at_empty_scene:
  assumes e: "0 < e" "e + 1 < length timeline"
    and empty: "shots (timeline ! e) = []"
    and before: "shots (timeline ! (e - 1)) \<noteq> []"
    and after: "shots (timeline ! (e + 1)) \<noteq> []"
  shows "(\<exists>r. getRelativeShots timeline (int (e - 1))
                 (int (length (shots (timeline ! (e - 1))) - 1)) = Inr r \<and> nextShot r = None)
       \<and> (\<exists>r. getRelativeShots timeline (int (e + 1)) 0 = Inr r \<and> prevShot r = None)
       \<and> (shot_ids_unique timeline \<longrightarrow>
            getNextShot timeline (scene_id (timeline ! (e - 1)))
              (shot_id (shot_at timeline (e - 1) (length (shots (timeline ! (e - 1))) - 1)))
              = Some (shot_at timeline (e + 1) 0)
          \<and> getPreviousShot timeline (scene_id (timeline ! (e + 1)))
              (shot_id (shot_at timeline (e + 1) 0))
              = Some (shot_at timeline (e - 1) (length (shots (timeline ! (e - 1))) - 1)))"
proof -
  let ?m = "length (shots (timeline ! (e - 1)))"
  from before have m: "0 < ?m" by simp
  have pb: "shot_position timeline (e - 1) (?m - 1)"
    using e m by (simp add: shot_position_def)
  have pa: "shot_position timeline (e + 1) 0"
    using e after by (simp add: shot_position_def)
  have e1: "Suc (e - Suc 0) = e" using e by simp
  have A: "\<exists>r. getRelativeShots timeline (int (e - 1)) (int (?m - 1)) = Inr r \<and> nextShot r = None"
    using getRelativeShots_position [OF pb] m empty e by (simp add: e1)
  have B: "\<exists>r. getRelativeShots timeline (int (e + 1)) 0 = Inr r \<and> prevShot r = None"
    using getRelativeShots_position [OF pa] empty e by (simp add: e1)
  have k: "flatten_index timeline (e + 1) 0 = flatten_index timeline (e - 1) (?m - 1) + 1"
  proof -
    have "flatten_index timeline (Suc e) 0 = flatten_index timeline e 0"
      using e empty by (intro flatten_index_skip_empty) simp_all
    also have "flatten_index timeline e 0 = flatten_index timeline (e - 1) ?m"
      using flatten_index_next_scene [of "e - 1" timeline] e by simp
    also have "\<dots> = flatten_index timeline (e - 1) (?m - 1) + 1"
      using m by (simp add: flatten_index_def)
    finally show ?thesis by simp
  qed
  have C: "getNextShot timeline sa (shot_id (shot_at timeline (e - 1) (?m - 1)))
             = Some (shot_at timeline (e + 1) 0)
         \<and> getPreviousShot timeline sb (shot_id (shot_at timeline (e + 1) 0))
             = Some (shot_at timeline (e - 1) (?m - 1))"
    if u: "shot_ids_unique timeline" for sa sb
  proof -
    have "global_successor timeline (e - 1) (?m - 1) = Some (shot_at timeline (e + 1) 0)"
      using flatten_index_less [OF pa] nth_flatten [OF pa]
      unfolding global_successor_def Let_def k by simp
    moreover have "global_predecessor timeline (e + 1) 0 = Some (shot_at timeline (e - 1) (?m - 1))"
      using nth_flatten [OF pb]
      unfolding global_predecessor_def Let_def k by simp
    ultimately show ?thesis
      using getNextShot_unique [OF u pb] getPreviousShot_unique [OF u pa] by simp
  qed
  from A B C show ?thesis by blast
qed

text \<open>
  The timeline A = [S1], E = [], B = [S2]: the storyboard shows no neighbour for S1 and
  for S2, the orchestrator links S1 and S2.
\<close>

theorem storyboard_chain_breaks_at_empty_scene_witness:
  "(0::nat) < 1 \<and> 1 + 1 < length timeline_gap \<and> shots (timeline_gap ! 1) = []
   \<and> shots (timeline_gap ! (1 - 1)) \<noteq> [] \<and> shots (timeline_gap ! (1 + 1)) \<noteq> []
   \<and> shot_ids_unique timeline_gap
   \<and> getRelativeShots timeline_gap 0 0 = Inr \<lparr>prevShot = None, nextShot = None\<rparr>
   \<and> getRelativeShots timeline_gap 2 0 = Inr \<lparr>prevShot = None, nextShot = None\<rparr>
   \<and> getNextShot timeline_gap ''A'' ''S1'' = Some S2
   \<and> getPreviousShot timeline_gap ''B'' ''S2'' = Some S1"
proof -
  have h: "(0::nat) < 1" "1 + 1 < length timeline_gap" "shots (timeline_gap ! 1) = []"
    "shots (timeline_gap ! (1 - 1)) \<noteq> []" "shots (timeline_gap ! (1 + 1)) \<noteq> []"
    by (simp_all add: example_defs)
  have u: "shot_ids_unique timeline_gap"
    by (simp add: example_defs resolver_defs)
  have r: "getRelativeShots timeline_gap 0 0 = Inr \<lparr>prevShot = None, nextShot = None\<rparr>"
    "getRelativeShots timeline_gap 2 0 = Inr \<lparr>prevShot = None, nextShot = None\<rparr>"
    by (simp_all add: example_defs getRelativeShots_def js_nth_def)
  from storyboard_chain_breaks_at_empty_scene [OF h] u h r show ?thesis
    by (simp add: example_defs shot_at_def)
qed

text \<open>
  Claim C2 as stated fails for the orchestrator's resolver: in the timeline A = [S1],
  E = [], B = [S2], the last shot of the scene before the empty scene has the successor S2,
  and the first shot of the scene after it has the predecessor S1.
\<close>

theorem resolver_skips_empty_scene_counterexample:
  "shots (timeline_gap ! 1) = [] \<and> shots (timeline_gap ! 0) = [S1] \<and> shots (timeline_gap ! 2) = [S2]
   \<and> scene_id (timeline_gap ! 0) = ''A'' \<and> scene_id (timeline_gap ! 2) = ''B''
   \<and> getNextShot timeline_gap ''A'' (shot_id S1) = Some S2
   \<and> getPreviousShot timeline_gap ''B'' (shot_id S2) = Some S1"
  by (simp add: example_defs resolver_defs)

subsection \<open>Scene planning\<close>

lemma id_or_random_assigned:
  "id_or_random rnd n upstream = (i, n') \<Longrightarrow> id_assigned rnd upstream i"
  by (auto simp: id_or_random_def id_assigned_def split: option.splits if_splits)

lemma plan_shots_spec:
  "plan_shots rnd n mode rs = (ss, n') \<Longrightarrow> list_all2 (freshly_planned rnd mode) rs ss"
proof (induction rs arbitrary: n ss n')
  case Nil
  then show ?case by simp
next
  case (Cons r rs)
  obtain i n1 where a: "id_or_random rnd n (raw_shot_id r) = (i, n1)" by fastforce
  obtain ss1 n2 where b: "plan_shots rnd n1 mode rs = (ss1, n2)" by fastforce
  from Cons.prems a b have ss: "ss = plan_shot mode r i # ss1" by simp
  have hd: "freshly_planned rnd mode r (plan_shot mode r i)"
    using id_or_random_assigned [OF a] by (simp add: freshly_planned_def plan_shot_def)
  from Cons.IH [OF b] hd show ?case by (simp add: ss)
qed

lemma plan_scenes_spec:
  "plan_scenes rnd n mode raws = (scs, n') \<Longrightarrow> list_all2 (scene_planned rnd mode) raws scs"
proof (induction raws arbitrary: n scs n')
  case Nil
  then show ?case by simp
next
  case (Cons s rest)
  obtain i n1 where a: "id_or_random rnd n (raw_scene_id s) = (i, n1)" by fastforce
  obtain ss n2 where b: "plan_shots rnd n1 mode (raw_shot_list s) = (ss, n2)" by fastforce
  obtain scs1 n3 where c: "plan_scenes rnd n2 mode rest = (scs1, n3)" by fastforce
  from Cons.prems a b c have scs: "scs =
      \<lparr>scene_id = i, sectionLabel = raw_sectionLabel s,
        startTime = raw_startTime s, endTime = raw_endTime s, lyrics = raw_lyrics s,
        narrativeDescription = raw_narrativeDescription s, shots = ss\<rparr> # scs1"
    by (simp add: raw_shot_list_def)
  from plan_shots_spec [OF b] id_or_random_assigned [OF a] Cons.IH [OF c]
  show ?case by (simp add: scs scene_planned_def)
qed

lemma planScenes_Inr:
  assumes "planScenes rnd an response = Inr scs"
  obtains raws where "response = Parsed (Some raws)"
    and "list_all2 (scene_planned rnd (videoMode (visualIdentity an))) raws scs"
proof -
  from assms obtain raws where r: "response = Parsed (Some raws)"
    and scs: "scs = fst (plan_scenes rnd 0 (videoMode (visualIdentity an)) raws)"
    by (auto simp: planScenes_def split: PlanResponse.splits option.splits)
  have "list_all2 (scene_planned rnd (videoMode (visualIdentity an))) raws scs"
    using plan_scenes_spec [of rnd 0 "videoMode (visualIdentity an)" raws] scs
    by (cases "plan_scenes rnd 0 (videoMode (visualIdentity an)) raws") simp
  with r that show thesis by blast
qed

lemmas plan_defs = planScenes_def id_or_random_def plan_shot_def raw_shot_list_def
  raw_shot_def raw_shot_with_image_def raw_scene_def raw_AB_def raw_numbered_def
  raw_without_ids_def example_rnd_def example_analysis_def example_concept_def

text \<open>
  Claim C5, amended. \<^verbatim>\<open>planScenes\<close> returns a scene collection for every upstream response
  that parses to a scene list. Whenever it returns one, every shot of it has both statuses
  at Idle and \<open>useNextAsEndFrame\<close> true exactly when the mode is cinematic; the collection
  has one scene per upstream scene and one shot per upstream shot, each with the upstream
  id when there is one and a value of the random expression when it was omitted, and each
  shot with the image URL and the video URL of its upstream shot: none when the upstream
  shot has none, as every shot of the response schema.
\<close>

theorem planScenes_initialises_every_shot:
  "(\<exists>scs. planScenes rnd an (Parsed (Some raws)) = Inr scs)
   \<and> (\<forall>scs. planScenes rnd an response = Inr scs \<longrightarrow>
        (\<forall>sc \<in> set scs. \<forall>shot \<in> set (shots sc).
            imageStatus shot = IDLE \<and> videoStatus shot = IDLE
            \<and> (useNextAsEndFrame shot \<longleftrightarrow> videoMode (visualIdentity an) = cinematic))
        \<and> (\<exists>upstream. response = Parsed (Some upstream) \<and> length scs = length upstream
            \<and> (\<forall>i < length upstream.
                  id_assigned rnd (raw_scene_id (upstream ! i)) (scene_id (scs ! i))
                  \<and> length (shots (scs ! i)) = length (raw_shot_list (upstream ! i))
                  \<and> (\<forall>j < length (raw_shot_list (upstream ! i)).
                        id_assigned rnd (raw_shot_id (raw_shot_list (upstream ! i) ! j))
                          (shot_id (shots (scs ! i) ! j))
                        \<and> imageUrl (shots (scs ! i) ! j)
                            = raw_imageUrl (raw_shot_list (upstream ! i) ! j)
                        \<and> videoUrl (shots (scs ! i) ! j)
                            = raw_videoUrl (raw_shot_list (upstream ! i) ! j)))))"
proof (intro conjI allI impI)
  show "\<exists>scs. planScenes rnd an (Parsed (Some raws)) = Inr scs"
    by (simp add: planScenes_def)
next
  fix scs
  assume a: "planScenes rnd an response = Inr scs"
  let ?mode = "videoMode (visualIdentity an)"
  from a obtain upstream where r: "response = Parsed (Some upstream)"
    and p: "list_all2 (scene_planned rnd ?mode) upstream scs"
    by (rule planScenes_Inr)
  from p have len: "length scs = length upstream"
    and nth: "\<And>i. i < length upstream \<Longrightarrow> scene_planned rnd ?mode (upstream ! i) (scs ! i)"
    by (simp_all add: list_all2_conv_all_nth)
  have shot: "length (shots (scs ! i)) = length (raw_shot_list (upstream ! i))
      \<and> (\<forall>j < length (raw_shot_list (upstream ! i)).
            freshly_planned rnd ?mode (raw_shot_list (upstream ! i) ! j) (shots (scs ! i) ! j))"
    if "i < length upstream" for i
    using nth [OF that] by (simp add: scene_planned_def list_all2_conv_all_nth)
  show "\<forall>sc \<in> set scs. \<forall>shot \<in> set (shots sc).
            imageStatus shot = IDLE \<and> videoStatus shot = IDLE
            \<and> (useNextAsEndFrame shot \<longleftrightarrow> ?mode = cinematic)"
  proof (intro ballI)
    fix sc shot
    assume "sc \<in> set scs" and s: "shot \<in> set (shots sc)"
    then obtain i where i: "i < length upstream" "sc = scs ! i"
      using len by (auto simp: in_set_conv_nth)
    with s shot [of i] obtain j where "j < length (raw_shot_list (upstream ! i))"
      "shot = shots (scs ! i) ! j"
      by (auto simp: in_set_conv_nth)
    with shot [OF i(1)] have "freshly_planned rnd ?mode (raw_shot_list (upstream ! i) ! j) shot"
      by simp
    then show "imageStatus shot = IDLE \<and> videoStatus shot = IDLE
            \<and> (useNextAsEndFrame shot \<longleftrightarrow> ?mode = cinematic)"
      by (simp add: freshly_planned_def)
  qed
  have "id_assigned rnd (raw_scene_id (upstream ! i)) (scene_id (scs ! i))
        \<and> length (shots (scs ! i)) = length (raw_shot_list (upstream ! i))
        \<and> (\<forall>j < length (raw_shot_list (upstream ! i)).
              id_assigned rnd (raw_shot_id (raw_shot_list (upstream ! i) ! j))
                (shot_id (shots (scs ! i) ! j))
              \<and> imageUrl (shots (scs ! i) ! j) = raw_imageUrl (raw_shot_list (upstream ! i) ! j)
              \<and> videoUrl (shots (scs ! i) ! j) = raw_videoUrl (raw_shot_list (upstream ! i) ! j))"
    if "i < length upstream" for i
    using nth [OF that] shot [OF that] by (simp add: scene_planned_def freshly_planned_def)
  with r len
  show "\<exists>upstream. response = Parsed (Some upstream) \<and> length scs = length upstream
            \<and> (\<forall>i < length upstream.
                  id_assigned rnd (raw_scene_id (upstream ! i)) (scene_id (scs ! i))
                  \<and> length (shots (scs ! i)) = length (raw_shot_list (upstream ! i))
                  \<and> (\<forall>j < length (raw_shot_list (upstream ! i)).
                        id_assigned rnd (raw_shot_id (raw_shot_list (upstream ! i) ! j))
                          (shot_id (shots (scs ! i) ! j))
                        \<and> imageUrl (shots (scs ! i) ! j)
                            = raw_imageUrl (raw_shot_list (upstream ! i) ! j)
                        \<and> videoUrl (shots (scs ! i) ! j)
                            = raw_videoUrl (raw_shot_list (upstream ! i) ! j)))"
    by (intro exI [of _ upstream]) simp
qed

text \<open>
  An upstream response that omits the id of its first scene and of that scene's first
  shot, and the shot list of its second scene, planned in cinematic mode: the shot gets a
  random id, both statuses at Idle, the continuity flag, and no URL, as its upstream shot
  has none.
\<close>

theorem planScenes_initialises_every_shot_witness:
  "planScenes example_rnd (example_analysis cinematic) (Parsed (Some raw_without_ids)) =
     Inr [example_scene ''z'' [example_shot ''zz'' ''dawn'' None IDLE True,
                               example_shot ''S2'' ''river'' None IDLE True],
          example_scene ''B'' []]
   \<and> imageStatus (example_shot ''zz'' ''dawn'' None IDLE True) = IDLE
   \<and> videoStatus (example_shot ''zz'' ''dawn'' None IDLE True) = IDLE
   \<and> useNextAsEndFrame (example_shot ''zz'' ''dawn'' None IDLE True)
   \<and> id_assigned example_rnd None ''zz''
   \<and> imageUrl (example_shot ''zz'' ''dawn'' None IDLE True) = None
   \<and> videoUrl (example_shot ''zz'' ''dawn'' None IDLE True) = None"
proof -
  let ?scs = "[example_scene ''z'' [example_shot ''zz'' ''dawn'' None IDLE True,
                               example_shot ''S2'' ''river'' None IDLE True],
          example_scene ''B'' []]"
  let ?shot = "example_shot ''zz'' ''dawn'' None IDLE True"
  let ?raw = "raw_shot_list (raw_without_ids ! 0) ! 0"
  have r: "planScenes example_rnd (example_analysis cinematic) (Parsed (Some raw_without_ids))
      = Inr ?scs"
    by (simp add: plan_defs example_scene_def example_shot_def)
  have m: "videoMode (visualIdentity (example_analysis cinematic)) = cinematic"
    by (simp add: example_analysis_def)
  from planScenes_initialises_every_shot
    [of example_rnd "example_analysis cinematic" raw_without_ids "Parsed (Some raw_without_ids)"] r
  have all: "\<forall>sc \<in> set ?scs. \<forall>shot \<in> set (shots sc).
            imageStatus shot = IDLE \<and> videoStatus shot = IDLE
            \<and> (useNextAsEndFrame shot \<longleftrightarrow> cinematic = cinematic)"
    and ids: "\<forall>i < length raw_without_ids.
                  id_assigned example_rnd (raw_scene_id (raw_without_ids ! i)) (scene_id (?scs ! i))
                  \<and> length (shots (?scs ! i)) = length (raw_shot_list (raw_without_ids ! i))
                  \<and> (\<forall>j < length (raw_shot_list (raw_without_ids ! i)).
                        id_assigned example_rnd (raw_shot_id (raw_shot_list (raw_without_ids ! i) ! j))
                          (shot_id (shots (?scs ! i) ! j))
                        \<and> imageUrl (shots (?scs ! i) ! j)
                            = raw_imageUrl (raw_shot_list (raw_without_ids ! i) ! j)
                        \<and> videoUrl (shots (?scs ! i) ! j)
                            = raw_videoUrl (raw_shot_list (raw_without_ids ! i) ! j))"
    unfolding m by blast+
  from all have "imageStatus ?shot = IDLE \<and> videoStatus ?shot = IDLE \<and> useNextAsEndFrame ?shot"
    by (simp add: example_scene_def)
  moreover have "id_assigned example_rnd None ''zz''
      \<and> imageUrl ?shot = None \<and> videoUrl ?shot = None"
  proof -
    have i0: "0 < length raw_without_ids"
      by (simp add: raw_without_ids_def)
    have j0: "0 < length (raw_shot_list (raw_without_ids ! 0))"
      by (simp add: raw_without_ids_def raw_scene_def raw_shot_list_def)
    have raw: "raw_shot_id ?raw = None" "raw_imageUrl ?raw = None" "raw_videoUrl ?raw = None"
      by (simp_all add: raw_without_ids_def raw_scene_def raw_shot_def raw_shot_list_def)
    have sh: "shots (?scs ! 0) ! 0 = ?shot"
      by (simp add: example_scene_def)
    from ids i0 have "\<forall>j < length (raw_shot_list (raw_without_ids ! 0)).
        id_assigned example_rnd (raw_shot_id (raw_shot_list (raw_without_ids ! 0) ! j))
          (shot_id (shots (?scs ! 0) ! j))
        \<and> imageUrl (shots (?scs ! 0) ! j) = raw_imageUrl (raw_shot_list (raw_without_ids ! 0) ! j)
        \<and> videoUrl (shots (?scs ! 0) ! j) = raw_videoUrl (raw_shot_list (raw_without_ids ! 0) ! j)"
      by blast
    with j0 have "id_assigned example_rnd (raw_shot_id ?raw) (shot_id (shots (?scs ! 0) ! 0))
        \<and> imageUrl (shots (?scs ! 0) ! 0) = raw_imageUrl ?raw
        \<and> videoUrl (shots (?scs ! 0) ! 0) = raw_videoUrl ?raw"
      by blast
    then show ?thesis
      unfolding sh raw by (simp add: example_shot_def)
  qed
  ultimately show ?thesis using r by simp
qed

text \<open>
  An upstream shot that carries an image URL keeps it: the planned shot is Idle and has
  an image.
\<close>

theorem planScenes_keeps_upstream_image_counterexample:
  "planScenes example_rnd (example_analysis cinematic)
     (Parsed (Some [raw_scene (Some ''A'')
        (Some [raw_shot_with_image (Some ''S1'') ''dawn'' ''data:image/png;base64,T0xE''])]))
   = Inr [example_scene ''A''
            [example_shot ''S1'' ''dawn'' (Some ''data:image/png;base64,T0xE'') IDLE True]]
   \<and> imageStatus (example_shot ''S1'' ''dawn'' (Some ''data:image/png;base64,T0xE'') IDLE True)
       = IDLE
   \<and> imageUrl (example_shot ''S1'' ''dawn'' (Some ''data:image/png;base64,T0xE'') IDLE True)
       \<noteq> None"
  by (simp add: plan_defs example_scene_def example_shot_def)

subsection \<open>The invariant of the reachable states\<close>

lemma timeline_consistent_Nil: "timeline_consistent []"
  by (simp add: timeline_consistent_def)

lemma spread_consistent:
  "safe_updates u \<Longrightarrow> media_consistent shot \<Longrightarrow> media_consistent (spread shot u)"
  by (auto simp: safe_updates_def media_consistent_def spread_def override_def
      split: option.splits)

lemma updateShot_consistent:
  assumes "safe_updates u" and "timeline_consistent scs"
  shows "timeline_consistent (updateShot scs sceneId shotId u)"
  using assms
  by (auto simp: timeline_consistent_def updateShot_def list_all_iff spread_consistent)

lemma apply_action_consistent:
  "safe_action a \<Longrightarrow> timeline_consistent (scenes st) \<Longrightarrow>
   timeline_consistent (scenes (apply_action st a))"
  by (cases a) (simp_all add: updateShot_consistent timeline_consistent_Nil)

lemma freshly_planned_consistent:
  "freshly_planned rnd mode raw shot \<Longrightarrow> media_consistent shot"
  by (simp add: freshly_planned_def media_consistent_def)

lemma planScenes_consistent:
  assumes "planScenes rnd an response = Inr scs"
  shows "timeline_consistent scs"
proof -
  from assms obtain raws where r: "response = Parsed (Some raws)"
    and scs: "scs = fst (plan_scenes rnd 0 (videoMode (visualIdentity an)) raws)"
    by (auto simp: planScenes_def split: PlanResponse.splits option.splits)
  have "list_all2 (scene_planned rnd (videoMode (visualIdentity an))) raws scs"
    using plan_scenes_spec [of rnd 0 "videoMode (visualIdentity an)" raws] scs
    by (cases "plan_scenes rnd 0 (videoMode (visualIdentity an)) raws") simp
  then have "\<forall>sc \<in> set scs. \<forall>shot \<in> set (shots sc).
      \<exists>raw. freshly_planned rnd (videoMode (visualIdentity an)) raw shot"
    by (auto simp: list_all2_conv_all_nth in_set_conv_nth scene_planned_def) metis
  then show ?thesis
    by (auto simp: timeline_consistent_def list_all_iff dest: freshly_planned_consistent)
qed

lemma image_result_nonempty:
  "generateShotImage_result response = Returns url \<Longrightarrow> url \<noteq> []"
  by (auto simp: generateShotImage_result_def split: outcome.splits option.splits)

lemma handler_run_safe:
  assumes "handler_run st acts" and "a \<in> set acts"
  shows "safe_action a"
  using assms
proof (cases rule: handler_run.cases)
  case upload_dispatch
  with assms(2) show ?thesis by (auto simp: handleFileUpload_dispatch_def)
next
  case (upload_settle result)
  with assms(2) show ?thesis
    by (auto simp: handleFileUpload_settle_def timeline_consistent_def split: outcome.splits)
next
  case plan_dispatch
  with assms(2) show ?thesis
    by (auto simp: handleRegenerateStructure_dispatch_def split: if_splits)
next
  case (plan_settle rnd an response scs)
  with assms(2) planScenes_consistent [OF plan_settle(2)] show ?thesis
    by (auto simp: handleRegenerateStructure_settle_def)
next
  case (plan_fail an m)
  with assms(2) show ?thesis by (auto simp: handleRegenerateStructure_settle_def)
next
  case (analysis_confirmed an)
  with assms(2) show ?thesis by (auto simp: handleAnalysisConfirmed_def)
next
  case reset
  with assms(2) show ?thesis by (auto simp: resetProject_def)
next
  case (check_key aistudio)
  with assms(2) show ?thesis by (auto simp: checkKey_def split: option.splits)
next
  case (select_key aistudio)
  with assms(2) show ?thesis
    by (auto simp: handleSelectKey_def split: option.splits if_splits)
next
  case dismiss
  with assms(2) show ?thesis by (auto simp: dismissError_def)
next
  case (visual_edit sceneId shotId v)
  with assms(2) show ?thesis
    by (auto simp: edit_visualPrompt_def safe_updates_def no_updates_def)
next
  case (motion_edit sceneId shotId v)
  with assms(2) show ?thesis
    by (auto simp: edit_motionPrompt_def safe_updates_def no_updates_def)
next
  case (toggle_edit sceneId shotId checked)
  with assms(2) show ?thesis
    by (auto simp: edit_useNextAsEndFrame_def safe_updates_def no_updates_def)
next
  case (image_dispatch sceneId shotId)
  with assms(2) show ?thesis
    by (auto simp: handleGenerateImage_dispatch_def safe_updates_def no_updates_def
        split: option.splits)
next
  case (image_settle sceneId shotId response)
  with assms(2) show ?thesis
    by (auto simp: handleGenerateImage_settle_def safe_updates_def no_updates_def
        dest: image_result_nonempty split: outcome.splits)
next
  case (video_dispatch aistudio sceneId shotId)
  with assms(2) show ?thesis
    by (auto simp: handleGenerateVideo_dispatch_def key_check_def handleSelectKey_def
        safe_updates_def no_updates_def split: option.splits if_splits)
next
  case (video_settle aistudio sceneId shotId result)
  with assms(2) show ?thesis
    by (auto simp: handleGenerateVideo_settle_def handleSelectKey_def safe_updates_def
        no_updates_def split: outcome.splits option.splits if_splits)
qed

lemma reachable_consistent: "reachable st \<Longrightarrow> timeline_consistent (scenes st)"
proof (induction rule: reachable.induct)
  case initial
  show ?case by (simp add: initial_state_def timeline_consistent_def)
next
  case (action snapshot acts a st)
  from handler_run_safe [OF action(2,3)] action.IH(2) show ?case
    by (rule apply_action_consistent)
qed

lemma reachable_foldl:
  assumes "reachable snapshot" and "handler_run snapshot acts"
  shows "set pre \<subseteq> set acts \<Longrightarrow> reachable st \<Longrightarrow> reachable (foldl apply_action st pre)"
proof (induction pre arbitrary: st)
  case Nil
  then show ?case by simp
next
  case (Cons a pre)
  from Cons.prems have "a \<in> set acts" by simp
  with assms Cons.prems(2) have "reachable (apply_action st a)"
    by (intro reachable.action)
  with Cons show ?case by simp
qed

lemma reachable_exec:
  "reachable st \<Longrightarrow> handler_run st acts \<Longrightarrow> reachable (exec st acts)"
  unfolding exec_def by (rule reachable_foldl [where acts = acts]) simp_all


lemma exec_append: "exec st (xs @ ys) = exec (exec st xs) ys"
  by (simp add: exec_def)

lemma reachable_handleGenerateImage:
  assumes "reachable st"
  shows "reachable (exec st (handleGenerateImage st sceneId shotId response))"
proof (cases "handleGenerateImage_dispatch st sceneId shotId")
  case None
  with assms show ?thesis by (simp add: handleGenerateImage_def exec_def)
next
  case (Some acts)
  with assms have "reachable (exec st acts)"
    by (auto intro: reachable_exec handler_run.image_dispatch)
  then have "reachable (exec (exec st acts)
      (handleGenerateImage_settle sceneId shotId (generateShotImage_result response)))"
    by (rule reachable_exec) (rule handler_run.image_settle)
  with Some show ?thesis by (simp add: handleGenerateImage_def exec_append)
qed

lemma reachable_handleGenerateVideo:
  assumes "reachable st"
  shows "reachable (exec st (handleGenerateVideo aistudio aistudio' st sceneId shotId result))"
proof (cases "handleGenerateVideo_dispatch aistudio st sceneId shotId")
  case None
  with assms show ?thesis by (simp add: handleGenerateVideo_def exec_def)
next
  case (Some acts)
  with assms have r: "reachable (exec st acts)"
    by (auto intro: reachable_exec handler_run.video_dispatch)
  then have "reachable (exec (exec st acts)
      (handleGenerateVideo_settle aistudio' sceneId shotId result))"
    by (rule reachable_exec) (rule handler_run.video_settle)
  with r Some show ?thesis by (simp add: handleGenerateVideo_def exec_append exec_def)
qed

lemma reachable_uploaded: "reachable state_uploaded"
proof -
  have "reachable (exec initial_state handleFileUpload_dispatch)"
    by (rule reachable_exec) (rule reachable.initial, rule handler_run.upload_dispatch)
  then show ?thesis
    unfolding state_uploaded_def
    by (rule reachable_exec) (rule handler_run.upload_settle)
qed

lemma audioFile_uploaded: "audioFile state_uploaded"
  by (simp add: state_uploaded_def exec_def initial_state_def handleFileUpload_dispatch_def
      handleFileUpload_settle_def)

lemma reachable_planned: "reachable (state_planned mode raws)"
proof -
  have "handleRegenerateStructure_dispatch state_uploaded = Some [SetLoading True, SetError None]"
    using audioFile_uploaded by (simp add: handleRegenerateStructure_dispatch_def)
  then have "reachable (exec state_uploaded [SetLoading True, SetError None])"
    by (auto intro: reachable_exec reachable_uploaded handler_run.plan_dispatch)
  moreover have "planScenes example_rnd (example_analysis mode) (Parsed (Some raws))
      = Inr (fst (plan_scenes example_rnd 0 mode raws))"
    by (simp add: planScenes_def example_analysis_def)
  ultimately show ?thesis
    unfolding state_planned_def
    by (auto intro: reachable_exec handler_run.plan_settle)
qed

lemma reachable_image_done: "reachable st \<Longrightarrow> reachable (image_done st sceneId shotId d)"
  unfolding image_done_def by (rule reachable_handleGenerateImage)

lemma reachable_image_failed: "reachable st \<Longrightarrow> reachable (image_failed st sceneId shotId)"
  unfolding image_failed_def by (rule reachable_handleGenerateImage)

lemmas handler_defs = handleGenerateImage_def handleGenerateImage_dispatch_def
  handleGenerateImage_settle_def generateShotImage_result_def
  handleGenerateVideo_def handleGenerateVideo_dispatch_def handleGenerateVideo_settle_def
  key_check_def handleSelectKey_def findShot_def updateShot_def spread_def override_def no_updates_def
  exec_def

lemma planned_AB:
  "state_planned mode raw_AB =
     \<lparr>audioFile = True, analysis = Some (example_analysis mode),
      scenes = [example_scene ''A'' [example_shot ''S1'' ''dawn'' None IDLE (mode = cinematic),
                                     example_shot ''S2'' ''river'' None IDLE (mode = cinematic)],
                example_scene ''B'' [example_shot ''S3'' ''temple'' None IDLE (mode = cinematic)]],
      apiKeyVerified = False, loading = False, app_error = None\<rparr>"
  by (simp add: state_planned_def state_uploaded_def exec_def initial_state_def
      handleFileUpload_dispatch_def handleFileUpload_settle_def
      handleRegenerateStructure_settle_def raw_AB_def raw_scene_def raw_shot_def
      raw_shot_list_def id_or_random_def plan_shot_def example_scene_def example_shot_def)

lemma planned_numbered:
  "state_planned mode raw_numbered =
     \<lparr>audioFile = True, analysis = Some (example_analysis mode),
      scenes = [example_scene ''A'' [example_shot ''shot-1'' ''dawn'' None IDLE (mode = cinematic),
                                     example_shot ''shot-2'' ''river'' None IDLE (mode = cinematic)],
                example_scene ''B'' [example_shot ''shot-1'' ''temple'' None IDLE (mode = cinematic),
                                     example_shot ''shot-2'' ''dance'' None IDLE (mode = cinematic)]],
      apiKeyVerified = False, loading = False, app_error = None\<rparr>"
  by (simp add: state_planned_def state_uploaded_def exec_def initial_state_def
      handleFileUpload_dispatch_def handleFileUpload_settle_def
      handleRegenerateStructure_settle_def raw_numbered_def raw_scene_def raw_shot_def
      raw_shot_list_def id_or_random_def plan_shot_def example_scene_def example_shot_def)

lemma scenes_AB_S2:
  "scenes state_AB_S2 =
     [example_scene ''A'' [example_shot ''S1'' ''dawn'' None IDLE True,
        example_shot ''S2'' ''river'' (Some ''data:image/png;base64,UklWRVI='') SUCCESS True],
      example_scene ''B'' [example_shot ''S3'' ''temple'' None IDLE True]]"
  by (simp add: state_AB_S2_def state_AB_def image_done_def planned_AB handler_defs
      example_scene_def example_shot_def)

text \<open>
  Claim C8. In every reachable state, every shot whose image status is Success has an image
  URL, and every shot whose video status is Success has a video URL. The reachable states
  are those of \<open>reachable\<close>: every interleaving of the calls of the handlers (upload, plan
  generation, image and video generation with their dispatch, success and failure, the
  edits of a shot card, reset and key selection).
\<close>

theorem success_implies_url:
  assumes "reachable st"
  shows "\<forall>sc \<in> set (scenes st). \<forall>shot \<in> set (shots sc).
           (imageStatus shot = SUCCESS \<longrightarrow> imageUrl shot \<noteq> None)
         \<and> (videoStatus shot = SUCCESS \<longrightarrow> videoUrl shot \<noteq> None)"
proof (intro ballI)
  fix sc shot
  assume "sc \<in> set (scenes st)" and "shot \<in> set (shots sc)"
  with reachable_consistent [OF assms] have "media_consistent shot"
    by (simp add: timeline_consistent_def list_all_iff)
  then show "(imageStatus shot = SUCCESS \<longrightarrow> imageUrl shot \<noteq> None)
         \<and> (videoStatus shot = SUCCESS \<longrightarrow> videoUrl shot \<noteq> None)"
    by (cases "imageUrl shot") (auto simp: media_consistent_def)
qed

text \<open>
  After the upload, a plan in cinematic mode and a successful image generation for S2, the
  state is reachable and S2 has the status Success and an image URL.
\<close>

theorem success_implies_url_witness:
  "reachable state_AB_S2
   \<and> imageStatus
        (shot_at (scenes state_AB_S2) 0 1)
       = SUCCESS
   \<and> imageUrl
        (shot_at (scenes state_AB_S2) 0 1)
       \<noteq> None"
proof -
  let ?st = "state_AB_S2"
  let ?shot = "shot_at (scenes ?st) 0 1"
  have r: "reachable ?st"
    unfolding state_AB_S2_def state_AB_def
    by (intro reachable_image_done reachable_planned)
  have m: "scenes ?st ! 0 \<in> set (scenes ?st)" "?shot \<in> set (shots (scenes ?st ! 0))"
    "imageStatus ?shot = SUCCESS"
    by (simp_all add: scenes_AB_S2 shot_at_def example_scene_def example_shot_def)
  from success_implies_url [OF r] m(1,2)
  have "imageStatus ?shot = SUCCESS \<longrightarrow> imageUrl ?shot \<noteq> None"
    by blast
  with r m(3) show ?thesis by simp
qed

subsection \<open>The example states\<close>

lemma value_AB:
  "state_AB =
     \<lparr>audioFile = True, analysis = Some (example_analysis cinematic),
      scenes = [example_scene ''A'' [example_shot ''S1'' ''dawn'' None IDLE True,
                                     example_shot ''S2'' ''river'' None IDLE True],
                example_scene ''B'' [example_shot ''S3'' ''temple'' None IDLE True]],
      apiKeyVerified = False, loading = False, app_error = None\<rparr>"
  by (simp add: state_AB_def planned_AB)

lemma value_AB_S2:
  "state_AB_S2 =
     \<lparr>audioFile = True, analysis = Some (example_analysis cinematic),
      scenes = [example_scene ''A'' [example_shot ''S1'' ''dawn'' None IDLE True,
        example_shot ''S2'' ''river'' (Some ''data:image/png;base64,UklWRVI='') SUCCESS True],
                example_scene ''B'' [example_shot ''S3'' ''temple'' None IDLE True]],
      apiKeyVerified = False, loading = False, app_error = None\<rparr>"
  by (simp add: state_AB_S2_def value_AB image_done_def handler_defs
      example_scene_def example_shot_def)

lemma value_AB_S2_S3:
  "state_AB_S2_S3 =
     \<lparr>audioFile = True, analysis = Some (example_analysis cinematic),
      scenes = [example_scene ''A'' [example_shot ''S1'' ''dawn'' None IDLE True,
        example_shot ''S2'' ''river'' (Some ''data:image/png;base64,UklWRVI='') SUCCESS True],
                example_scene ''B''
        [example_shot ''S3'' ''temple'' (Some ''data:image/png;base64,VEVNUExF'') SUCCESS True]],
      apiKeyVerified = False, loading = False, app_error = None\<rparr>"
  by (simp add: state_AB_S2_S3_def value_AB_S2 image_done_def handler_defs
      example_scene_def example_shot_def)

lemma value_AB_S1_stale:
  "state_AB_S1_stale =
     \<lparr>audioFile = True, analysis = Some (example_analysis cinematic),
      scenes = [example_scene ''A''
        [example_shot ''S1'' ''dawn'' (Some ''data:image/png;base64,REFXTg=='') ERROR True,
         example_shot ''S2'' ''river'' None IDLE True],
                example_scene ''B'' [example_shot ''S3'' ''temple'' None IDLE True]],
      apiKeyVerified = False, loading = False,
      app_error = Some ''Image generation failed for shot S1''\<rparr>"
  by (simp add: state_AB_S1_stale_def value_AB image_done_def image_failed_def handler_defs
      example_scene_def example_shot_def)

lemma value_numbered_A2:
  "state_numbered_A2 =
     \<lparr>audioFile = True, analysis = Some (example_analysis cinematic),
      scenes = [example_scene ''A'' [example_shot ''shot-1'' ''dawn'' None IDLE True,
        example_shot ''shot-2'' ''river'' (Some ''data:image/png;base64,UklWRVI='') SUCCESS True],
                example_scene ''B'' [example_shot ''shot-1'' ''temple'' None IDLE True,
                                     example_shot ''shot-2'' ''dance'' None IDLE True]],
      apiKeyVerified = False, loading = False, app_error = None\<rparr>"
  by (simp add: state_numbered_A2_def planned_numbered image_done_def handler_defs
      example_scene_def example_shot_def)

lemma value_numbered_A2_B1:
  "state_numbered_A2_B1 =
     \<lparr>audioFile = True, analysis = Some (example_analysis cinematic),
      scenes = [example_scene ''A'' [example_shot ''shot-1'' ''dawn'' None IDLE True,
        example_shot ''shot-2'' ''river'' (Some ''data:image/png;base64,UklWRVI='') SUCCESS True],
                example_scene ''B''
        [example_shot ''shot-1'' ''temple'' (Some ''data:image/png;base64,VEVNUExF'') SUCCESS True,
         example_shot ''shot-2'' ''dance'' None IDLE True]],
      apiKeyVerified = False, loading = False, app_error = None\<rparr>"
  by (simp add: state_numbered_A2_B1_def value_numbered_A2 image_done_def handler_defs
      example_scene_def example_shot_def)

lemma reachable_examples:
  "reachable state_AB" "reachable state_AB_S2" "reachable state_AB_S2_S3"
  "reachable state_AB_S1_stale" "reachable state_numbered_A2" "reachable state_numbered_A2_B1"
  unfolding state_AB_def state_AB_S2_def state_AB_S2_S3_def state_AB_S1_stale_def
    state_numbered_A2_def state_numbered_A2_B1_def
  by (intro reachable_image_done reachable_image_failed reachable_planned)+

subsection \<open>The resolver where shot ids repeat\<close>

text \<open>
  Claim C1 says that the resolver's predecessor and successor are the neighbours in the
  flattened global shot order. The code does not give them where shot ids repeat from
  scene to scene, which \<^verbatim>\<open>planScenes\<close> allows: it keeps the ids of the upstream response.
  The timeline A = [shot-1, shot-2], B = [shot-1, shot-2] is the one planned from such a
  response; every pair of scene id and shot id in it is unique. \<^verbatim>\<open>getPreviousShot\<close> and
  \<^verbatim>\<open>getNextShot\<close> look the shot id up in the whole flattened list and never read their
  scene id: called for the first shot of scene B, they find the first shot of scene A,
  which has the same id. The resolver gives no predecessor and the successor A2; the
  flattened order gives the predecessor A2 and the successor B2.
\<close>

theorem resolver_ignores_scene_id:
  "reachable (state_planned montage raw_numbered)
   \<and> scenes (state_planned montage raw_numbered) = timeline_numbered
   \<and> 2 \<le> length timeline_numbered \<and> every_scene_has_a_shot timeline_numbered
   \<and> shot_position timeline_numbered 1 0
   \<and> scene_id (timeline_numbered ! 1) = ''B''
   \<and> shot_id (shot_at timeline_numbered 1 0) = ''shot-1''
   \<and> findShot timeline_numbered ''B'' ''shot-1'' = Some B1
   \<and> getPreviousShot timeline_numbered ''B'' ''shot-1'' = None
   \<and> global_predecessor timeline_numbered 1 0 = Some A2
   \<and> getNextShot timeline_numbered ''B'' ''shot-1'' = Some A2
   \<and> global_successor timeline_numbered 1 0 = Some B2
   \<and> A2 \<noteq> B2"
proof -
  have "scenes (state_planned montage raw_numbered) = timeline_numbered"
    by (simp add: planned_numbered example_defs)
  moreover have "findShot timeline_numbered ''B'' ''shot-1'' = Some B1"
    by (simp add: findShot_def example_defs)
  ultimately show ?thesis
    using reachable_planned [of montage raw_numbered]
    by (simp add: example_defs resolver_defs)
qed

subsection \<open>Looking a shot up by its ids\<close>

lemma find_Some_mem: "find P xs = Some x \<Longrightarrow> x \<in> set xs \<and> P x"
  by (auto simp: find_Some_iff)

lemma findShot_resolves_position:
  assumes u: "shot_ids_unique scs" and p: "shot_position scs i j"
    and f: "findShot scs sceneId (shot_id (shot_at scs i j)) = Some x"
  shows "x = shot_at scs i j"
proof -
  from f obtain sc where "find (\<lambda>s. scene_id s = sceneId) scs = Some sc"
    and "find (\<lambda>s. shot_id s = shot_id (shot_at scs i j)) (shots sc) = Some x"
    by (auto simp: findShot_def split: option.splits)
  then have "sc \<in> set scs" and "x \<in> set (shots sc)"
    and same: "shot_id x = shot_id (shot_at scs i j)"
    by (auto dest: find_Some_mem)
  then have x: "x \<in> set (flatten scs)" by (auto simp: flatten_def)
  have y: "shot_at scs i j \<in> set (flatten scs)"
    using flatten_index_less [OF p] nth_flatten [OF p] by (metis nth_mem)
  from u have "inj_on shot_id (set (flatten scs))"
    by (simp add: shot_ids_unique_def distinct_map)
  with x y same show ?thesis by (auto dest: inj_onD)
qed

subsection \<open>Failure of an image generation\<close>

lemma length_updateShot: "length (updateShot scs a b u) = length scs"
  by (simp add: updateShot_def)

lemma shot_counts_updateShot:
  "map (\<lambda>sc. length (shots sc)) (updateShot scs a b u) = map (\<lambda>sc. length (shots sc)) scs"
  by (simp add: updateShot_def comp_def)

lemma scene_id_updateShot:
  "i < length scs \<Longrightarrow> scene_id (updateShot scs a b u ! i) = scene_id (scs ! i)"
  by (simp add: updateShot_def)

lemma shot_position_updateShot:
  "shot_position (updateShot scs a b u) i j = shot_position scs i j"
  by (auto simp: shot_position_def updateShot_def split: if_splits)

lemma shot_at_updateShot:
  assumes "shot_position scs i j"
  shows "shot_at (updateShot scs a b u) i j =
     (if scene_id (scs ! i) = a \<and> shot_id (shot_at scs i j) = b
      then spread (shot_at scs i j) u else shot_at scs i j)"
  using assms by (auto simp: shot_position_def shot_at_def updateShot_def split: if_splits)

lemma shot_id_spread: "upd_id u = None \<Longrightarrow> shot_id (spread shot u) = shot_id shot"
  by (simp add: spread_def override_def)

lemma exec_image_failure:
  "exec st (handleGenerateImage_settle sceneId shotId (Throws m)) =
     st\<lparr>scenes := updateShot (scenes st) sceneId shotId (no_updates\<lparr>upd_imageStatus := Some ERROR\<rparr>),
        app_error := Some (''Image generation failed for shot '' @ shotId)\<rparr>"
  by (simp add: exec_def handleGenerateImage_settle_def)

lemma exec_image_dispatch:
  assumes "handleGenerateImage_dispatch st sceneId shotId = Some acts"
  shows "exec st acts =
     st\<lparr>scenes := updateShot (scenes st) sceneId shotId
          (no_updates\<lparr>upd_imageStatus := Some LOADING, upd_error := Some None\<rparr>)\<rparr>"
  using assms
  by (auto simp: exec_def handleGenerateImage_dispatch_def split: option.splits)

text \<open>
  What a failed image generation changes, in terms of the ids the handler is called with.
  When an image generation is dispatched for \<open>(sceneId, shotId)\<close> and fails, the timeline
  keeps its shape, and for every shot position: a shot with that scene id and shot id ends
  with the image status Error and the image URL it had before (unset, or the one of an
  earlier success); its only other change is that its error field was cleared at
  dispatch; every shot with another scene id or another shot id is as it was. The message
  recorded at the project level is not empty.
\<close>

lemma image_failure_by_ids:
  assumes dispatched: "handleGenerateImage_dispatch st sceneId shotId = Some acts"
    and failed: "generateShotImage_result response = Throws m"
    and position: "shot_position (scenes st) i j"
  shows "length (scenes (exec st (handleGenerateImage st sceneId shotId response)))
           = length (scenes st)
     \<and> map (\<lambda>sc. length (shots sc)) (scenes (exec st (handleGenerateImage st sceneId shotId response)))
           = map (\<lambda>sc. length (shots sc)) (scenes st)
     \<and> (if scene_id (scenes st ! i) = sceneId \<and> shot_id (shot_at (scenes st) i j) = shotId
        then imageStatus (shot_at (scenes (exec st (handleGenerateImage st sceneId shotId response))) i j)
               = ERROR
           \<and> imageUrl (shot_at (scenes (exec st (handleGenerateImage st sceneId shotId response))) i j)
               = imageUrl (shot_at (scenes st) i j)
           \<and> shot_at (scenes (exec st (handleGenerateImage st sceneId shotId response))) i j
               = (shot_at (scenes st) i j)\<lparr>imageStatus := ERROR, shot_error := None\<rparr>
        else shot_at (scenes (exec st (handleGenerateImage st sceneId shotId response))) i j
               = shot_at (scenes st) i j)
     \<and> app_error (exec st (handleGenerateImage st sceneId shotId response))
           = Some (''Image generation failed for shot '' @ shotId)
     \<and> ''Image generation failed for shot '' @ shotId \<noteq> []"
proof -
  let ?loading = "no_updates\<lparr>upd_imageStatus := Some LOADING, upd_error := Some None\<rparr>"
  let ?error = "no_updates\<lparr>upd_imageStatus := Some ERROR\<rparr>"
  let ?mid = "updateShot (scenes st) sceneId shotId ?loading"
  let ?st' = "exec st (handleGenerateImage st sceneId shotId response)"
  have st': "?st' = st\<lparr>scenes := updateShot ?mid sceneId shotId ?error,
        app_error := Some (''Image generation failed for shot '' @ shotId)\<rparr>"
    using dispatched failed exec_image_dispatch [OF dispatched]
    by (simp add: handleGenerateImage_def exec_append exec_image_failure)
  from position have i: "i < length (scenes st)" by (simp add: shot_position_def)
  have pm: "shot_position ?mid i j"
    using position by (simp add: shot_position_updateShot)
  have mid: "shot_at ?mid i j =
     (if scene_id (scenes st ! i) = sceneId \<and> shot_id (shot_at (scenes st) i j) = shotId
      then spread (shot_at (scenes st) i j) ?loading else shot_at (scenes st) i j)"
    by (rule shot_at_updateShot [OF position])
  have new: "shot_at (scenes ?st') i j =
     (if scene_id (?mid ! i) = sceneId \<and> shot_id (shot_at ?mid i j) = shotId
      then spread (shot_at ?mid i j) ?error else shot_at ?mid i j)"
    unfolding st' using shot_at_updateShot [OF pm] by simp
  have sid: "scene_id (?mid ! i) = scene_id (scenes st ! i)"
    by (rule scene_id_updateShot [OF i])
  have shid: "shot_id (shot_at ?mid i j) = shot_id (shot_at (scenes st) i j)"
    unfolding mid by (simp add: shot_id_spread no_updates_def)
  note new' = new [unfolded sid shid]
  show ?thesis
  proof (cases "scene_id (scenes st ! i) = sceneId \<and> shot_id (shot_at (scenes st) i j) = shotId")
    case True
    then have "shot_at (scenes ?st') i j =
        spread (spread (shot_at (scenes st) i j) ?loading) ?error"
      unfolding new' using mid by simp
    also have "\<dots> = (shot_at (scenes st) i j)\<lparr>imageStatus := ERROR, shot_error := None\<rparr>"
      by (simp add: spread_def override_def no_updates_def)
    finally have "shot_at (scenes ?st') i j =
        (shot_at (scenes st) i j)\<lparr>imageStatus := ERROR, shot_error := None\<rparr>" .
    with True show ?thesis
      by (simp add: st' length_updateShot shot_counts_updateShot)
  next
    case False
    with mid have "shot_at ?mid i j = shot_at (scenes st) i j" by auto
    with False have "shot_at (scenes ?st') i j = shot_at (scenes st) i j"
      unfolding new' by auto
    with False show ?thesis
      by (auto simp: st' length_updateShot shot_counts_updateShot)
  qed
qed

text \<open>
  S2 has an image; its regeneration fails. S2 ends with the status Error and its old image
  URL, S1 is as it was, and the message names the shot.
\<close>

lemma image_failure_by_ids_example:
  "shot_position (scenes state_AB_S2) 0 1
   \<and> scene_id (scenes state_AB_S2 ! 0) = ''A''
   \<and> shot_id (shot_at (scenes state_AB_S2) 0 1) = ''S2''
   \<and> imageStatus (shot_at (scenes (image_failed state_AB_S2 ''A'' ''S2'')) 0 1) = ERROR
   \<and> imageUrl (shot_at (scenes (image_failed state_AB_S2 ''A'' ''S2'')) 0 1)
       = Some ''data:image/png;base64,UklWRVI=''
   \<and> shot_at (scenes (image_failed state_AB_S2 ''A'' ''S2'')) 0 0
       = shot_at (scenes state_AB_S2) 0 0
   \<and> app_error (image_failed state_AB_S2 ''A'' ''S2'')
       = Some ''Image generation failed for shot S2''"
proof -
  let ?response = "Throws (Some ''quota exceeded'') :: string option list outcome"
  let ?st' = "exec state_AB_S2 (handleGenerateImage state_AB_S2 ''A'' ''S2'' ?response)"
  obtain acts where d: "handleGenerateImage_dispatch state_AB_S2 ''A'' ''S2'' = Some acts"
    by (simp add: value_AB_S2 handleGenerateImage_dispatch_def findShot_def
        example_scene_def example_shot_def)
  have f: "generateShotImage_result ?response = Throws (Some ''quota exceeded'')"
    by (simp add: generateShotImage_result_def)
  have p: "shot_position (scenes state_AB_S2) 0 1" "shot_position (scenes state_AB_S2) 0 0"
    by (simp_all add: value_AB_S2 shot_position_def example_scene_def)
  have k: "scene_id (scenes state_AB_S2 ! 0) = ''A''"
    "shot_id (shot_at (scenes state_AB_S2) 0 1) = ''S2''"
    "shot_id (shot_at (scenes state_AB_S2) 0 0) = ''S1''"
    "imageUrl (shot_at (scenes state_AB_S2) 0 1) = Some ''data:image/png;base64,UklWRVI=''"
    by (simp_all add: value_AB_S2 shot_at_def example_scene_def example_shot_def)
  from image_failure_by_ids [OF d f p(1)] k
  have target: "imageStatus (shot_at (scenes ?st') 0 1) = ERROR"
    "imageUrl (shot_at (scenes ?st') 0 1) = Some ''data:image/png;base64,UklWRVI=''"
    "app_error ?st' = Some ''Image generation failed for shot S2''"
    by simp_all
  from image_failure_by_ids [OF d f p(2)] k
  have other: "shot_at (scenes ?st') 0 0 = shot_at (scenes state_AB_S2) 0 0"
    by simp
  from p(1) k(1,2) target other show ?thesis
    by (simp add: image_failed_def)
qed

lemma planned_twins:
  "state_twins =
     \<lparr>audioFile = True, analysis = Some (example_analysis cinematic),
      scenes = [example_scene ''A'' [example_shot ''shot-1'' ''dawn'' None IDLE True,
                                     example_shot ''shot-1'' ''river'' None IDLE True]],
      apiKeyVerified = False, loading = False, app_error = None\<rparr>"
  by (simp add: state_twins_def state_planned_def state_uploaded_def exec_def initial_state_def
      handleFileUpload_dispatch_def handleFileUpload_settle_def
      handleRegenerateStructure_settle_def raw_twins_def raw_scene_def raw_shot_def
      raw_shot_list_def id_or_random_def plan_shot_def example_scene_def example_shot_def)

text \<open>
  Claim C7 says that a failed image generation leaves every other shot as it was. The code
  does not when two shots of a scene have the same id, which \<^verbatim>\<open>planScenes\<close> allows: it
  keeps the ids of the upstream response. In the state planned from a response whose
  scene A has the shots \<^verbatim>\<open>shot-1\<close> (dawn) and \<^verbatim>\<open>shot-1\<close> (river), the generation asked for
  \<open>(A, shot-1)\<close> is that of the first shot, the one \<^verbatim>\<open>findShot\<close> resolves; when it fails,
  \<^verbatim>\<open>updateShot\<close> writes the status Error to both shots: the second one, for which nothing
  was generated, goes from Idle to Error.
\<close>

theorem image_failure_alters_twin_shot:
  "reachable state_twins
   \<and> findShot (scenes state_twins) ''A'' ''shot-1''
       = Some (example_shot ''shot-1'' ''dawn'' None IDLE True)
   \<and> shot_at (scenes state_twins) 0 1 = example_shot ''shot-1'' ''river'' None IDLE True
   \<and> shot_at (scenes (image_failed state_twins ''A'' ''shot-1'')) 0 0
       = example_shot ''shot-1'' ''dawn'' None ERROR True
   \<and> shot_at (scenes (image_failed state_twins ''A'' ''shot-1'')) 0 1
       = example_shot ''shot-1'' ''river'' None ERROR True
   \<and> shot_at (scenes (image_failed state_twins ''A'' ''shot-1'')) 0 1
       \<noteq> shot_at (scenes state_twins) 0 1"
proof -
  have "reachable state_twins"
    unfolding state_twins_def by (rule reachable_planned)
  then show ?thesis
    by (simp add: planned_twins image_failed_def handler_defs shot_at_def
        example_scene_def example_shot_def)
qed

subsection \<open>Failure of a video generation\<close>

text \<open>
  Claim C9, amended. A failed video generation whose message contains
  \<^verbatim>\<open>Requested entity was not found\<close> or \<^verbatim>\<open>404\<close> first clears \<open>apiKeyVerified\<close> and runs
  \<^verbatim>\<open>handleSelectKey\<close>, which opens the host's key selection when the host provides it.
  Once that has completed (the host has no key selection, or its call has resolved, which
  sets \<open>apiKeyVerified\<close> again), the handler sets the shot's video status to Error and
  reports \<^verbatim>\<open>Key verification lost. Please try again.\<close> Every other failure, a missing
  message included, opens no key selection and leaves \<open>apiKeyVerified\<close> as it is; it sets the
  video status to Error and reports \<^verbatim>\<open>Video generation failed: \<close> followed by the
  message. In both branches the update goes to the shots with the scene id and shot id of
  the call, and to nothing else of the timeline.
\<close>

theorem video_failure_branches:
  "(credential_signature m \<longrightarrow>
      (\<exists>rest. handleGenerateVideo_settle aistudio sceneId shotId (Throws m)
         = [ConsoleError, SetApiKeyVerified False] @ fst (handleSelectKey aistudio) @ rest)
      \<and> (aistudio \<noteq> None \<longrightarrow>
            OpenSelectKey \<in> set (handleGenerateVideo_settle aistudio sceneId shotId (Throws m)))
      \<and> (snd (handleSelectKey aistudio) = Resolves \<longrightarrow>
            handleGenerateVideo_settle aistudio sceneId shotId (Throws m)
              = [ConsoleError, SetApiKeyVerified False] @ fst (handleSelectKey aistudio)
                @ [UpdateShot sceneId shotId (no_updates\<lparr>upd_videoStatus := Some ERROR\<rparr>),
                   SetError (Some ''Key verification lost. Please try again.'')]
            \<and> (aistudio \<noteq> None \<longrightarrow>
                  occurs_before OpenSelectKey
                    (SetError (Some ''Key verification lost. Please try again.''))
                    (handleGenerateVideo_settle aistudio sceneId shotId (Throws m)))
            \<and> apiKeyVerified
                (exec st (handleGenerateVideo_settle aistudio sceneId shotId (Throws m)))
                = (aistudio \<noteq> None)
            \<and> app_error (exec st (handleGenerateVideo_settle aistudio sceneId shotId (Throws m)))
                = Some ''Key verification lost. Please try again.''))
   \<and> (\<not> credential_signature m \<longrightarrow>
      handleGenerateVideo_settle aistudio sceneId shotId (Throws m)
        = [ConsoleError,
           UpdateShot sceneId shotId (no_updates\<lparr>upd_videoStatus := Some ERROR\<rparr>),
           SetError (Some (''Video generation failed: '' @ interpolate m))]
      \<and> OpenSelectKey \<notin> set (handleGenerateVideo_settle aistudio sceneId shotId (Throws m))
      \<and> apiKeyVerified (exec st (handleGenerateVideo_settle aistudio sceneId shotId (Throws m)))
          = apiKeyVerified st
      \<and> app_error (exec st (handleGenerateVideo_settle aistudio sceneId shotId (Throws m)))
          = Some (''Video generation failed: '' @ interpolate m))
   \<and> ((credential_signature m \<longrightarrow> snd (handleSelectKey aistudio) = Resolves) \<longrightarrow>
        scenes (exec st (handleGenerateVideo_settle aistudio sceneId shotId (Throws m)))
          = updateShot (scenes st) sceneId shotId (no_updates\<lparr>upd_videoStatus := Some ERROR\<rparr>)
        \<and> (shot_position (scenes st) i j \<longrightarrow>
             scene_id (scenes st ! i) = sceneId \<longrightarrow> shot_id (shot_at (scenes st) i j) = shotId \<longrightarrow>
             videoStatus
               (shot_at
                  (scenes (exec st (handleGenerateVideo_settle aistudio sceneId shotId (Throws m))))
                  i j)
               = ERROR))"
proof -
  let ?acts = "handleGenerateVideo_settle aistudio sceneId shotId (Throws m)"
  let ?err = "no_updates\<lparr>upd_videoStatus := Some ERROR\<rparr>"
  let ?lost = "SetError (Some ''Key verification lost. Please try again.'')"
  have sc: "scenes (exec st ?acts) = updateShot (scenes st) sceneId shotId ?err"
    if "credential_signature m \<longrightarrow> snd (handleSelectKey aistudio) = Resolves"
    using that
    by (cases aistudio)
      (auto simp: handleGenerateVideo_settle_def handleSelectKey_def exec_def)
  have status: "videoStatus (shot_at (scenes (exec st ?acts)) i j) = ERROR"
    if "credential_signature m \<longrightarrow> snd (handleSelectKey aistudio) = Resolves"
      "shot_position (scenes st) i j" "scene_id (scenes st ! i) = sceneId"
      "shot_id (shot_at (scenes st) i j) = shotId"
    unfolding sc [OF that(1)]
    using that(3,4) shot_at_updateShot [OF that(2), of sceneId shotId ?err]
    by (simp add: spread_def override_def no_updates_def)
  have P: "\<exists>rest. ?acts = [ConsoleError, SetApiKeyVerified False] @ fst (handleSelectKey aistudio) @ rest"
    if "credential_signature m"
    using that by (simp add: handleGenerateVideo_settle_def)
  have O: "OpenSelectKey \<in> set ?acts" if "credential_signature m" "aistudio \<noteq> None"
    using that by (auto simp: handleGenerateVideo_settle_def handleSelectKey_def)
  have A: "?acts = [ConsoleError, SetApiKeyVerified False] @ fst (handleSelectKey aistudio)
          @ [UpdateShot sceneId shotId ?err, ?lost]"
    if "credential_signature m" "snd (handleSelectKey aistudio) = Resolves"
    using that by (simp add: handleGenerateVideo_settle_def)
  have A2: "apiKeyVerified (exec st ?acts) = (aistudio \<noteq> None)"
    "app_error (exec st ?acts) = Some ''Key verification lost. Please try again.''"
    if "credential_signature m" "snd (handleSelectKey aistudio) = Resolves"
    using that
    by (cases aistudio; simp add: handleGenerateVideo_settle_def handleSelectKey_def exec_def)+
  have A': "occurs_before OpenSelectKey ?lost ?acts"
    if "credential_signature m" "snd (handleSelectKey aistudio) = Resolves" "aistudio \<noteq> None"
    unfolding A [OF that(1,2)] using that(2,3)
    by (auto simp: handleSelectKey_def occurs_before_def)
  have B: "?acts = [ConsoleError, UpdateShot sceneId shotId ?err,
                    SetError (Some (''Video generation failed: '' @ interpolate m))]"
    "OpenSelectKey \<notin> set ?acts" "apiKeyVerified (exec st ?acts) = apiKeyVerified st"
    "app_error (exec st ?acts) = Some (''Video generation failed: '' @ interpolate m)"
    if "\<not> credential_signature m"
    using that
    by (simp_all add: handleGenerateVideo_settle_def exec_def)
  from sc status P O A A2 A' B show ?thesis by blast
qed

text \<open>
  The entity-not-found message takes the first branch, with a key selection that resolves;
  the message of \<^verbatim>\<open>generateShotVideo\<close>'s own error takes the second.
\<close>

theorem video_failure_branches_witness:
  "credential_signature (Some ''Requested entity was not found.'')
   \<and> snd (handleSelectKey (Some Resolves)) = Resolves
   \<and> shot_position (scenes state_AB_S2) 0 1
   \<and> scene_id (scenes state_AB_S2 ! 0) = ''A''
   \<and> shot_id (shot_at (scenes state_AB_S2) 0 1) = ''S2''
   \<and> occurs_before OpenSelectKey (SetError (Some ''Key verification lost. Please try again.''))
        (handleGenerateVideo_settle (Some Resolves) ''A'' ''S2''
           (Throws (Some ''Requested entity was not found.'')))
   \<and> videoStatus
        (shot_at (scenes (exec state_AB_S2
           (handleGenerateVideo_settle (Some Resolves) ''A'' ''S2''
              (Throws (Some ''Requested entity was not found.''))))) 0 1) = ERROR
   \<and> app_error (exec state_AB_S2
        (handleGenerateVideo_settle (Some Resolves) ''A'' ''S2''
           (Throws (Some ''Requested entity was not found.''))))
       = Some ''Key verification lost. Please try again.''
   \<and> \<not> credential_signature (Some ''Video generation failed'')
   \<and> OpenSelectKey \<notin> set (handleGenerateVideo_settle (Some Resolves) ''A'' ''S2''
        (Throws (Some ''Video generation failed'')))
   \<and> videoStatus
        (shot_at (scenes (exec state_AB_S2
           (handleGenerateVideo_settle (Some Resolves) ''A'' ''S2''
              (Throws (Some ''Video generation failed''))))) 0 1) = ERROR
   \<and> app_error (exec state_AB_S2
        (handleGenerateVideo_settle (Some Resolves) ''A'' ''S2''
           (Throws (Some ''Video generation failed''))))
       = Some ''Video generation failed: Video generation failed''"
proof -
  have s: "credential_signature (Some ''Requested entity was not found.'')"
    by (simp add: credential_signature_def message_includes_def)
  have n: "\<not> credential_signature (Some ''Video generation failed'')"
    by (simp add: credential_signature_def message_includes_def)
  have r: "snd (handleSelectKey (Some Resolves)) = Resolves" "Some Resolves \<noteq> None"
    by (simp_all add: handleSelectKey_def)
  have p: "shot_position (scenes state_AB_S2) 0 1"
    "scene_id (scenes state_AB_S2 ! 0) = ''A''"
    "shot_id (shot_at (scenes state_AB_S2) 0 1) = ''S2''"
    by (simp_all add: value_AB_S2 shot_position_def shot_at_def example_scene_def
        example_shot_def)
  from video_failure_branches
    [of "Some ''Requested entity was not found.''" "Some Resolves" "''A''" "''S2''"
       state_AB_S2 0 1] s r p
  have a: "occurs_before OpenSelectKey (SetError (Some ''Key verification lost. Please try again.''))
        (handleGenerateVideo_settle (Some Resolves) ''A'' ''S2''
           (Throws (Some ''Requested entity was not found.'')))"
    "videoStatus
        (shot_at (scenes (exec state_AB_S2
           (handleGenerateVideo_settle (Some Resolves) ''A'' ''S2''
              (Throws (Some ''Requested entity was not found.''))))) 0 1) = ERROR"
    "app_error (exec state_AB_S2
        (handleGenerateVideo_settle (Some Resolves) ''A'' ''S2''
           (Throws (Some ''Requested entity was not found.''))))
       = Some ''Key verification lost. Please try again.''"
    by blast+
  from video_failure_branches
    [of "Some ''Video generation failed''" "Some Resolves" "''A''" "''S2''" state_AB_S2 0 1] n p
  have b: "OpenSelectKey \<notin> set (handleGenerateVideo_settle (Some Resolves) ''A'' ''S2''
        (Throws (Some ''Video generation failed'')))"
    "videoStatus
        (shot_at (scenes (exec state_AB_S2
           (handleGenerateVideo_settle (Some Resolves) ''A'' ''S2''
              (Throws (Some ''Video generation failed''))))) 0 1) = ERROR"
    "app_error (exec state_AB_S2
        (handleGenerateVideo_settle (Some Resolves) ''A'' ''S2''
           (Throws (Some ''Video generation failed''))))
       = Some (''Video generation failed: '' @ interpolate (Some ''Video generation failed''))"
    by blast+
  from s n r(1) p a b show ?thesis
    by (simp add: interpolate_def)
qed

text \<open>
  Claim C9 as stated fails for a failure that has nothing to do with an entity that was
  not found: the message of an exceeded quota, in which the digits \<^verbatim>\<open>404\<close> happen to occur,
  takes the re-authorization branch.
\<close>

theorem other_failure_reauthorizes_counterexample:
  "\<not> message_includes (Some ''Quota exceeded: 1404 requests today'')
       ''Requested entity was not found''
   \<and> handleGenerateVideo_settle (Some Resolves) ''A'' ''S2''
        (Throws (Some ''Quota exceeded: 1404 requests today''))
      = [ConsoleError, SetApiKeyVerified False, OpenSelectKey, SetApiKeyVerified True,
         UpdateShot ''A'' ''S2'' (no_updates\<lparr>upd_videoStatus := Some ERROR\<rparr>),
         SetError (Some ''Key verification lost. Please try again.'')]"
  by (simp add: message_includes_def credential_signature_def handleGenerateVideo_settle_def
      handleSelectKey_def)

text \<open>
  When the key selection of the credential branch rejects or never settles, the handler
  ends at that call: the shot is not set to Error and no message is reported.
\<close>

lemma video_failure_key_selection_unsettled:
  "handleGenerateVideo_settle (Some Rejects) ''A'' ''S2''
     (Throws (Some ''Requested entity was not found.''))
   = [ConsoleError, SetApiKeyVerified False, OpenSelectKey]"
  "handleGenerateVideo_settle (Some Pending) ''A'' ''S2''
     (Throws (Some ''Requested entity was not found.''))
   = [ConsoleError, SetApiKeyVerified False, OpenSelectKey]"
  by (simp_all add: message_includes_def credential_signature_def
      handleGenerateVideo_settle_def handleSelectKey_def)

subsection \<open>The guard of the video generation\<close>

text \<open>
  Claim C6, amended. Video generation is never invocable for a shot without an image: when
  the image URL of a shot is unset or empty, the button of its card is disabled, and the
  orchestrator's entry point, called for a scene id and shot id that resolve to this shot
  (or to none), returns without a request and without a state change.
\<close>

theorem video_generation_requires_image:
  "(\<not> truthy (imageUrl shot) \<longrightarrow> generateVideo_disabled shot)
   \<and> (findShot (scenes st) sceneId shotId = Some shot \<and> \<not> truthy (imageUrl shot) \<longrightarrow>
        handleGenerateVideo_dispatch aistudio st sceneId shotId = None
        \<and> handleGenerateVideo aistudio aistudio' st sceneId shotId result = []
        \<and> exec st (handleGenerateVideo aistudio aistudio' st sceneId shotId result) = st)
   \<and> (findShot (scenes st) sceneId shotId = None \<longrightarrow>
        handleGenerateVideo_dispatch aistudio st sceneId shotId = None
        \<and> handleGenerateVideo aistudio aistudio' st sceneId shotId result = [])"
proof -
  have "handleGenerateVideo_dispatch aistudio st sceneId shotId = None"
    if "findShot (scenes st) sceneId shotId = Some shot" "\<not> truthy (imageUrl shot)"
    using that by (cases "imageUrl shot") (simp_all add: handleGenerateVideo_dispatch_def)
  moreover have "handleGenerateVideo_dispatch aistudio st sceneId shotId = None"
    if "findShot (scenes st) sceneId shotId = None"
    using that by (simp add: handleGenerateVideo_dispatch_def)
  ultimately show ?thesis
    by (auto simp: generateVideo_disabled_def handleGenerateVideo_def exec_def)
qed

text \<open>
  S1 has just been planned and has no image: its button is disabled and the entry point
  does nothing.
\<close>

theorem video_generation_requires_image_witness:
  "findShot (scenes state_AB) ''A'' ''S1'' = Some (example_shot ''S1'' ''dawn'' None IDLE True)
   \<and> \<not> truthy (imageUrl (example_shot ''S1'' ''dawn'' None IDLE True))
   \<and> generateVideo_disabled (example_shot ''S1'' ''dawn'' None IDLE True)
   \<and> handleGenerateVideo_dispatch (Some Resolves) state_AB ''A'' ''S1'' = None
   \<and> exec state_AB
        (handleGenerateVideo (Some Resolves) (Some Resolves) state_AB ''A'' ''S1''
           (Returns ''blob:1''))
       = state_AB"
proof -
  let ?shot = "example_shot ''S1'' ''dawn'' None IDLE True"
  have f: "findShot (scenes state_AB) ''A'' ''S1'' = Some ?shot"
    by (simp add: value_AB findShot_def example_scene_def example_shot_def)
  have n: "\<not> truthy (imageUrl ?shot)"
    by (simp add: example_shot_def)
  from video_generation_requires_image
    [of ?shot state_AB "''A''" "''S1''" "Some Resolves" "Some Resolves" "Returns ''blob:1''"]
    f n
  show ?thesis by blast
qed

text \<open>
  Claim C6 as stated fails for a shot that keeps the image URL of an earlier success while
  its image status is Error. The state is reachable: S1's image was generated, and its
  regeneration failed. The button of S1 is enabled, and the entry point dispatches the
  video request.
\<close>

theorem video_invocable_with_stale_image_counterexample:
  "reachable state_AB_S1_stale
   \<and> findShot (scenes state_AB_S1_stale) ''A'' ''S1''
       = Some (example_shot ''S1'' ''dawn'' (Some ''data:image/png;base64,REFXTg=='') ERROR True)
   \<and> imageStatus (example_shot ''S1'' ''dawn'' (Some ''data:image/png;base64,REFXTg=='') ERROR True)
       \<noteq> SUCCESS
   \<and> \<not> generateVideo_disabled
         (example_shot ''S1'' ''dawn'' (Some ''data:image/png;base64,REFXTg=='') ERROR True)
   \<and> handleGenerateVideo_dispatch (Some Resolves) state_AB_S1_stale ''A'' ''S1''
       = Some [OpenSelectKey, SetApiKeyVerified True,
               UpdateShot ''A'' ''S1''
                 (no_updates\<lparr>upd_videoStatus := Some LOADING, upd_error := Some None\<rparr>),
               GenerateVideos
                 \<lparr>request_model = ''veo-3.1-fast-generate-preview'',
                  request_prompt = ''slow zoom in'',
                  request_image = \<lparr>imageBytes = Some ''REFXTg=='', mimeType = ''image/png''\<rparr>,
                  numberOfVideos = 1, resolution = ''720p'', aspectRatio = ''16:9'',
                  lastFrame = None\<rparr>]"
proof -
  have "handleGenerateVideo_dispatch (Some Resolves) state_AB_S1_stale ''A'' ''S1''
       = Some [OpenSelectKey, SetApiKeyVerified True,
               UpdateShot ''A'' ''S1''
                 (no_updates\<lparr>upd_videoStatus := Some LOADING, upd_error := Some None\<rparr>),
               GenerateVideos
                 \<lparr>request_model = ''veo-3.1-fast-generate-preview'',
                  request_prompt = ''slow zoom in'',
                  request_image = \<lparr>imageBytes = Some ''REFXTg=='', mimeType = ''image/png''\<rparr>,
                  numberOfVideos = 1, resolution = ''720p'', aspectRatio = ''16:9'',
                  lastFrame = None\<rparr>]"
    by (simp add: value_AB_S1_stale handleGenerateVideo_dispatch_def findShot_def
        key_check_def handleSelectKey_def generateShotVideo_request_def next_image_def getNextShot_def
        allShots_def payload_def js_nth_def example_scene_def example_shot_def)
  moreover have "findShot (scenes state_AB_S1_stale) ''A'' ''S1''
       = Some (example_shot ''S1'' ''dawn'' (Some ''data:image/png;base64,REFXTg=='') ERROR True)"
    by (simp add: value_AB_S1_stale findShot_def example_scene_def example_shot_def)
  ultimately show ?thesis
    using reachable_examples(4)
    by (simp add: generateVideo_disabled_def isGenerating_def example_shot_def)
qed

subsection \<open>The terminal frame of a video request\<close>

text \<open>
  What the video request holds where the shot ids are globally unique. For the shot at a
  position that \<^verbatim>\<open>findShot\<close> resolves by its ids and that has an image, when the key is
  verified or the key selection resolves: the shot is set to Loading and the request is
  sent, nothing is reported as an error, and the request's terminal frame is the image of
  the global successor when \<open>useNextAsEndFrame\<close> is true and that successor has an image URL
  (whatever its image status); in all other cases, a missing successor image included,
  the request has no terminal frame.
\<close>

lemma end_frame_by_unique_ids:
  assumes u: "shot_ids_unique (scenes st)"
    and p: "shot_position (scenes st) i j"
    and f: "findShot (scenes st) (scene_id (scenes st ! i)) (shot_id (shot_at (scenes st) i j))
              \<noteq> None"
    and img: "truthy (imageUrl (shot_at (scenes st) i j))"
    and key: "snd (key_check aistudio st) = Resolves"
  shows "\<exists>req. handleGenerateVideo_dispatch aistudio st
                 (scene_id (scenes st ! i)) (shot_id (shot_at (scenes st) i j)) =
               Some (fst (key_check aistudio st)
                 @ [UpdateShot (scene_id (scenes st ! i)) (shot_id (shot_at (scenes st) i j))
                      (no_updates\<lparr>upd_videoStatus := Some LOADING, upd_error := Some None\<rparr>),
                    GenerateVideos req])
           \<and> lastFrame req =
               (case global_successor (scenes st) i j of
                  None \<Rightarrow> None
                | Some nxt \<Rightarrow>
                    (case imageUrl nxt of
                       None \<Rightarrow> None
                     | Some n \<Rightarrow>
                         if useNextAsEndFrame (shot_at (scenes st) i j) \<and> n \<noteq> []
                         then Some \<lparr>imageBytes = payload n, mimeType = ''image/png''\<rparr>
                         else None))"
proof -
  let ?shot = "shot_at (scenes st) i j"
  let ?sid = "scene_id (scenes st ! i)"
  let ?shid = "shot_id ?shot"
  from f obtain x where x: "findShot (scenes st) ?sid ?shid = Some x" by blast
  from findShot_resolves_position [OF u p x] x
  have fs: "findShot (scenes st) ?sid ?shid = Some ?shot" by simp
  from img obtain url where url: "imageUrl ?shot = Some url" "url \<noteq> []"
    by (cases "imageUrl ?shot") simp_all
  have n: "getNextShot (scenes st) ?sid ?shid = global_successor (scenes st) i j"
    by (rule getNextShot_unique [OF u p])
  let ?req = "generateShotVideo_request ?shot url (next_image st ?shot ?sid ?shid)"
  have a: "handleGenerateVideo_dispatch aistudio st ?sid ?shid =
      Some (fst (key_check aistudio st)
        @ [UpdateShot ?sid ?shid
             (no_updates\<lparr>upd_videoStatus := Some LOADING, upd_error := Some None\<rparr>),
           GenerateVideos ?req])"
    using fs url key by (simp add: handleGenerateVideo_dispatch_def)
  have l: "lastFrame ?req =
        (case global_successor (scenes st) i j of
           None \<Rightarrow> None
         | Some nxt \<Rightarrow>
             (case imageUrl nxt of
                None \<Rightarrow> None
              | Some n \<Rightarrow>
                  if useNextAsEndFrame ?shot \<and> n \<noteq> []
                  then Some \<lparr>imageBytes = payload n, mimeType = ''image/png''\<rparr>
                  else None))"
    by (auto simp: generateShotVideo_request_def next_image_def n split: option.splits)
  from a l show ?thesis by blast
qed

lemmas video_request_defs = handleGenerateVideo_dispatch_def findShot_def key_check_def
  handleSelectKey_def generateShotVideo_request_def next_image_def getNextShot_def
  allShots_def payload_def js_nth_def example_scene_def example_shot_def

lemmas unique_defs = shot_ids_unique_def flatten_def shot_position_def
  shot_at_def example_scene_def example_shot_def

text \<open>
  The scenario of the specification: S2 morphs into S3. With the images of S2 and S3, the
  video request of S2 has the image of S3 as its terminal frame; before S3 has an image,
  the request is sent without one.
\<close>

lemma end_frame_by_unique_ids_example:
  "handleGenerateVideo_dispatch (Some Resolves) state_AB_S2_S3 ''A'' ''S2''
     = Some [OpenSelectKey, SetApiKeyVerified True,
             UpdateShot ''A'' ''S2''
               (no_updates\<lparr>upd_videoStatus := Some LOADING, upd_error := Some None\<rparr>),
             GenerateVideos
               \<lparr>request_model = ''veo-3.1-fast-generate-preview'',
                request_prompt = ''slow zoom in'',
                request_image = \<lparr>imageBytes = Some ''UklWRVI='', mimeType = ''image/png''\<rparr>,
                numberOfVideos = 1, resolution = ''720p'', aspectRatio = ''16:9'',
                lastFrame = Some \<lparr>imageBytes = Some ''VEVNUExF'', mimeType = ''image/png''\<rparr>\<rparr>]"
  "handleGenerateVideo_dispatch (Some Resolves) state_AB_S2 ''A'' ''S2''
     = Some [OpenSelectKey, SetApiKeyVerified True,
             UpdateShot ''A'' ''S2''
               (no_updates\<lparr>upd_videoStatus := Some LOADING, upd_error := Some None\<rparr>),
             GenerateVideos
               \<lparr>request_model = ''veo-3.1-fast-generate-preview'',
                request_prompt = ''slow zoom in'',
                request_image = \<lparr>imageBytes = Some ''UklWRVI='', mimeType = ''image/png''\<rparr>,
                numberOfVideos = 1, resolution = ''720p'', aspectRatio = ''16:9'',
                lastFrame = None\<rparr>]"
  by (simp_all add: value_AB_S2_S3 value_AB_S2 video_request_defs)

text \<open>
  Claim C4 says that the terminal frame of a video request is the image of the global
  successor, and that a successor with no image gives a request with no terminal frame.
  The code does not where shot ids repeat from scene to scene, which \<^verbatim>\<open>planScenes\<close>
  allows: it keeps the ids of the upstream response. \<^verbatim>\<open>getNextShot\<close> looks the shot id up
  in the whole flattened list and never reads its scene id. The state is reachable: the
  timeline A = [shot-1, shot-2], B = [shot-1, shot-2], planned in cinematic mode, with the
  images of A's second shot and B's first shot. The global successor of B's first shot is
  B's second shot, which has no image; the request of B's first shot carries, as its
  terminal frame, the image of A's second shot, which comes before it.
\<close>

theorem end_frame_from_earlier_shot:
  "reachable state_numbered_A2_B1
   \<and> scene_id (scenes state_numbered_A2_B1 ! 1) = ''B''
   \<and> shot_id (shot_at (scenes state_numbered_A2_B1) 1 0) = ''shot-1''
   \<and> findShot (scenes state_numbered_A2_B1) ''B'' ''shot-1''
       = Some (shot_at (scenes state_numbered_A2_B1) 1 0)
   \<and> truthy (imageUrl (shot_at (scenes state_numbered_A2_B1) 1 0))
   \<and> useNextAsEndFrame (shot_at (scenes state_numbered_A2_B1) 1 0)
   \<and> global_successor (scenes state_numbered_A2_B1) 1 0
       = Some (example_shot ''shot-2'' ''dance'' None IDLE True)
   \<and> imageUrl (example_shot ''shot-2'' ''dance'' None IDLE True) = None
   \<and> getNextShot (scenes state_numbered_A2_B1) ''B'' ''shot-1''
       = Some (shot_at (scenes state_numbered_A2_B1) 0 1)
   \<and> imageUrl (shot_at (scenes state_numbered_A2_B1) 0 1)
       = Some ''data:image/png;base64,UklWRVI=''
   \<and> handleGenerateVideo_dispatch (Some Resolves) state_numbered_A2_B1 ''B'' ''shot-1''
       = Some [OpenSelectKey, SetApiKeyVerified True,
               UpdateShot ''B'' ''shot-1''
                 (no_updates\<lparr>upd_videoStatus := Some LOADING, upd_error := Some None\<rparr>),
               GenerateVideos
                 \<lparr>request_model = ''veo-3.1-fast-generate-preview'',
                  request_prompt = ''slow zoom in'',
                  request_image = \<lparr>imageBytes = Some ''VEVNUExF'', mimeType = ''image/png''\<rparr>,
                  numberOfVideos = 1, resolution = ''720p'', aspectRatio = ''16:9'',
                  lastFrame = Some \<lparr>imageBytes = Some ''UklWRVI='', mimeType = ''image/png''\<rparr>\<rparr>]"
proof -
  have "handleGenerateVideo_dispatch (Some Resolves) state_numbered_A2_B1 ''B'' ''shot-1''
       = Some [OpenSelectKey, SetApiKeyVerified True,
               UpdateShot ''B'' ''shot-1''
                 (no_updates\<lparr>upd_videoStatus := Some LOADING, upd_error := Some None\<rparr>),
               GenerateVideos
                 \<lparr>request_model = ''veo-3.1-fast-generate-preview'',
                  request_prompt = ''slow zoom in'',
                  request_image = \<lparr>imageBytes = Some ''VEVNUExF'', mimeType = ''image/png''\<rparr>,
                  numberOfVideos = 1, resolution = ''720p'', aspectRatio = ''16:9'',
                  lastFrame = Some \<lparr>imageBytes = Some ''UklWRVI='', mimeType = ''image/png''\<rparr>\<rparr>]"
    by (simp add: value_numbered_A2_B1 video_request_defs)
  moreover have "global_successor (scenes state_numbered_A2_B1) 1 0
       = Some (example_shot ''shot-2'' ''dance'' None IDLE True)"
    by (simp add: value_numbered_A2_B1 global_successor_def flatten_index_def flatten_def
        example_scene_def)
  moreover have "getNextShot (scenes state_numbered_A2_B1) ''B'' ''shot-1''
       = Some (shot_at (scenes state_numbered_A2_B1) 0 1)"
    by (simp add: value_numbered_A2_B1 getNextShot_def allShots_def js_nth_def shot_at_def
        example_scene_def example_shot_def)
  moreover have "findShot (scenes state_numbered_A2_B1) ''B'' ''shot-1''
       = Some (shot_at (scenes state_numbered_A2_B1) 1 0)"
    by (simp add: value_numbered_A2_B1 findShot_def shot_at_def example_scene_def
        example_shot_def)
  ultimately show ?thesis
    using reachable_examples(6)
    by (simp add: value_numbered_A2_B1 shot_at_def example_scene_def example_shot_def)
qed

subsection \<open>The reference images of an image request\<close>

lemma value_montage_S2:
  "state_montage_S2 =
     \<lparr>audioFile = True, analysis = Some (example_analysis montage),
      scenes = [example_scene ''A'' [example_shot ''S1'' ''dawn'' None IDLE False,
        example_shot ''S2'' ''river'' (Some ''data:image/png;base64,UklWRVI='') SUCCESS False],
                example_scene ''B'' [example_shot ''S3'' ''temple'' None IDLE False]],
      apiKeyVerified = False, loading = False, app_error = None\<rparr>"
  by (simp add: state_montage_S2_def planned_AB image_done_def handler_defs
      example_scene_def example_shot_def)

lemma reachable_montage_S2: "reachable state_montage_S2"
  unfolding state_montage_S2_def by (intro reachable_image_done reachable_planned)

lemma reference_part_falsy: "\<not> truthy url \<Longrightarrow> reference_part url = []"
  by (cases url) (simp_all add: reference_part_def)

lemma reference_part_truthy:
  "url \<noteq> [] \<Longrightarrow> reference_part (Some url) = [InlineData ''image/png'' (payload url)]"
  by (simp add: reference_part_def)

lemma flatten_mem:
  assumes "shot_position scs i j"
  shows "scs ! i \<in> set scs" and "shot_at scs i j \<in> set (shots (scs ! i))"
  using assms by (simp_all add: shot_position_def shot_at_def)

lemma global_predecessor_mem:
  assumes "shot_position scs i j" and "global_predecessor scs i j = Some prev"
  shows "\<exists>sc \<in> set scs. prev \<in> set (shots sc)"
proof -
  from flatten_index_less [OF assms(1)]
  have "flatten_index scs i j - 1 < length (flatten scs)" by simp
  with assms(2) have "prev \<in> set (flatten scs)"
    by (auto simp: global_predecessor_def Let_def split: if_splits)
  then show ?thesis by (auto simp: flatten_def)
qed

lemma reachable_predecessor_image:
  assumes "reachable st" and "shot_position (scenes st) i j"
    and "global_predecessor (scenes st) i j = Some prev" and "imageStatus prev = SUCCESS"
  shows "truthy (imageUrl prev)"
proof -
  from global_predecessor_mem [OF assms(2,3)]
  obtain sc where "sc \<in> set (scenes st)" "prev \<in> set (shots sc)" by blast
  with reachable_consistent [OF assms(1)] have "media_consistent prev"
    by (simp add: timeline_consistent_def list_all_iff)
  with assms(4) show ?thesis by (simp add: media_consistent_def)
qed

text \<open>
  What the image request holds. In montage mode, every image request the orchestrator
  builds holds the hero image, if one is selected, and the text prompt, and nothing else:
  no predecessor image, whatever the predecessor's state. In a reachable state whose shot
  ids are globally unique, the request built for the shot at a position holds, in this
  order, the hero image (if selected), then, in cinematic mode, the image of the global
  predecessor when it has one, then the text prompt; a predecessor whose image status is
  Success always has one, so its image is in the request.
\<close>

lemma image_request_by_unique_ids:
  assumes an: "analysis st = Some an"
  shows "(videoMode (visualIdentity an) = montage
          \<and> handleGenerateImage_dispatch st sceneId shotId = Some acts \<longrightarrow>
            (\<exists>t. acts =
               [UpdateShot sceneId shotId
                  (no_updates\<lparr>upd_imageStatus := Some LOADING, upd_error := Some None\<rparr>),
                GenerateContent (reference_part (heroImage (visualIdentity an)) @ [TextPart t])]))
       \<and> (reachable st \<and> shot_ids_unique (scenes st) \<and> shot_position (scenes st) i j
          \<and> handleGenerateImage_dispatch st
               (scene_id (scenes st ! i)) (shot_id (shot_at (scenes st) i j)) = Some acts' \<longrightarrow>
            (\<exists>refs t.
               acts' =
                 [UpdateShot (scene_id (scenes st ! i)) (shot_id (shot_at (scenes st) i j))
                    (no_updates\<lparr>upd_imageStatus := Some LOADING, upd_error := Some None\<rparr>),
                  GenerateContent
                    (reference_part (heroImage (visualIdentity an)) @ refs @ [TextPart t])]
               \<and> refs =
                   (case global_predecessor (scenes st) i j of
                      None \<Rightarrow> []
                    | Some prev \<Rightarrow>
                        if videoMode (visualIdentity an) = cinematic
                        then reference_part (imageUrl prev) else [])
               \<and> (\<forall>prev. videoMode (visualIdentity an) = cinematic
                      \<and> global_predecessor (scenes st) i j = Some prev
                      \<and> imageStatus prev = SUCCESS \<longrightarrow>
                        (\<exists>url. imageUrl prev = Some url
                           \<and> refs = [InlineData ''image/png'' (payload url)]))))"
proof (intro conjI impI)
  assume a: "videoMode (visualIdentity an) = montage
          \<and> handleGenerateImage_dispatch st sceneId shotId = Some acts"
  then have "previous_shot_url st an sceneId shotId = None"
    by (simp add: previous_shot_url_def split: option.splits)
  with a an show "\<exists>t. acts =
               [UpdateShot sceneId shotId
                  (no_updates\<lparr>upd_imageStatus := Some LOADING, upd_error := Some None\<rparr>),
                GenerateContent (reference_part (heroImage (visualIdentity an)) @ [TextPart t])]"
    by (auto simp: handleGenerateImage_dispatch_def generateShotImage_parts_def
        reference_part_def split: option.splits)
next
  let ?shot = "shot_at (scenes st) i j"
  let ?sid = "scene_id (scenes st ! i)"
  let ?shid = "shot_id ?shot"
  assume a: "reachable st \<and> shot_ids_unique (scenes st) \<and> shot_position (scenes st) i j
          \<and> handleGenerateImage_dispatch st ?sid ?shid = Some acts'"
  then have r: "reachable st" and u: "shot_ids_unique (scenes st)"
    and p: "shot_position (scenes st) i j"
    and d: "handleGenerateImage_dispatch st ?sid ?shid = Some acts'"
    by simp_all
  let ?refs = "case global_predecessor (scenes st) i j of
                 None \<Rightarrow> []
               | Some prev \<Rightarrow>
                   if videoMode (visualIdentity an) = cinematic
                   then reference_part (imageUrl prev) else []"
  have g: "getPreviousShot (scenes st) ?sid ?shid = global_predecessor (scenes st) i j"
    by (rule getPreviousShot_unique [OF u p])
  have refs: "reference_part (previous_shot_url st an ?sid ?shid) = ?refs"
    by (auto simp: previous_shot_url_def g reference_part_falsy split: option.splits)
  have "\<exists>t. acts' =
      [UpdateShot ?sid ?shid
         (no_updates\<lparr>upd_imageStatus := Some LOADING, upd_error := Some None\<rparr>),
       GenerateContent
         (reference_part (heroImage (visualIdentity an))
          @ reference_part (previous_shot_url st an ?sid ?shid) @ [TextPart t])]"
    using d an
    by (auto simp: handleGenerateImage_dispatch_def generateShotImage_parts_def
        split: option.splits)
  then have acts: "\<exists>t. acts' =
      [UpdateShot ?sid ?shid
         (no_updates\<lparr>upd_imageStatus := Some LOADING, upd_error := Some None\<rparr>),
       GenerateContent (reference_part (heroImage (visualIdentity an)) @ ?refs @ [TextPart t])]"
    unfolding refs .
  have c: "\<exists>url. imageUrl prev = Some url \<and> ?refs = [InlineData ''image/png'' (payload url)]"
    if "videoMode (visualIdentity an) = cinematic
        \<and> global_predecessor (scenes st) i j = Some prev \<and> imageStatus prev = SUCCESS" for prev
  proof -
    from that reachable_predecessor_image [OF r p] have "truthy (imageUrl prev)" by blast
    then obtain url where "imageUrl prev = Some url" "url \<noteq> []"
      by (cases "imageUrl prev") simp_all
    with that show ?thesis by (simp add: reference_part_truthy)
  qed
  from acts c show "\<exists>refs t.
               acts' =
                 [UpdateShot ?sid ?shid
                    (no_updates\<lparr>upd_imageStatus := Some LOADING, upd_error := Some None\<rparr>),
                  GenerateContent
                    (reference_part (heroImage (visualIdentity an)) @ refs @ [TextPart t])]
               \<and> refs = ?refs
               \<and> (\<forall>prev. videoMode (visualIdentity an) = cinematic
                      \<and> global_predecessor (scenes st) i j = Some prev
                      \<and> imageStatus prev = SUCCESS \<longrightarrow>
                        (\<exists>url. imageUrl prev = Some url
                           \<and> refs = [InlineData ''image/png'' (payload url)]))"
    by blast
qed

lemmas image_request_defs = handleGenerateImage_dispatch_def findShot_def
  previous_shot_url_def getPreviousShot_def allShots_def generateShotImage_parts_def
  reference_part_def payload_def js_nth_def example_analysis_def example_concept_def
  example_scene_def example_shot_def

text \<open>
  The scenario of the specification: S2 has a successful image, and the image of S3 is
  generated. In cinematic mode the request holds the hero image, then the image of S2; in
  montage mode it holds the hero image only.
\<close>

lemma image_request_by_unique_ids_example:
  "analysis state_AB_S2 = Some (example_analysis cinematic)
   \<and> reachable state_AB_S2
   \<and> shot_ids_unique (scenes state_AB_S2) \<and> shot_position (scenes state_AB_S2) 1 0
   \<and> global_predecessor (scenes state_AB_S2) 1 0
       = Some (example_shot ''S2'' ''river'' (Some ''data:image/png;base64,UklWRVI='') SUCCESS True)
   \<and> (\<exists>t. handleGenerateImage_dispatch state_AB_S2 ''B'' ''S3''
          = Some [UpdateShot ''B'' ''S3''
                    (no_updates\<lparr>upd_imageStatus := Some LOADING, upd_error := Some None\<rparr>),
                  GenerateContent
                    [InlineData ''image/png'' (Some ''SEVSTw==''),
                     InlineData ''image/png'' (Some ''UklWRVI=''),
                     TextPart t]])
   \<and> analysis state_montage_S2 = Some (example_analysis montage)
   \<and> (\<exists>t. handleGenerateImage_dispatch state_montage_S2 ''B'' ''S3''
          = Some [UpdateShot ''B'' ''S3''
                    (no_updates\<lparr>upd_imageStatus := Some LOADING, upd_error := Some None\<rparr>),
                  GenerateContent [InlineData ''image/png'' (Some ''SEVSTw==''), TextPart t]])"
proof -
  let ?S2 = "example_shot ''S2'' ''river'' (Some ''data:image/png;base64,UklWRVI='') SUCCESS True"
  have an: "analysis state_AB_S2 = Some (example_analysis cinematic)"
    by (simp add: value_AB_S2)
  have h: "reachable state_AB_S2" "shot_ids_unique (scenes state_AB_S2)"
    "shot_position (scenes state_AB_S2) 1 0"
    using reachable_examples(2) by (simp_all add: value_AB_S2 unique_defs)
  have k: "scene_id (scenes state_AB_S2 ! 1) = ''B''"
    "shot_id (shot_at (scenes state_AB_S2) 1 0) = ''S3''"
    "global_predecessor (scenes state_AB_S2) 1 0 = Some ?S2"
    "videoMode (visualIdentity (example_analysis cinematic)) = cinematic"
    "imageStatus ?S2 = SUCCESS"
    "imageUrl ?S2 = Some ''data:image/png;base64,UklWRVI=''"
    "reference_part (heroImage (visualIdentity (example_analysis cinematic)))
       = [InlineData ''image/png'' (Some ''SEVSTw=='')]"
    "payload ''data:image/png;base64,UklWRVI='' = Some ''UklWRVI=''"
    by (simp_all add: value_AB_S2 shot_at_def global_predecessor_def flatten_index_def
        flatten_def example_scene_def example_shot_def example_analysis_def
        reference_part_def payload_def js_nth_def)
  obtain acts' where d: "handleGenerateImage_dispatch state_AB_S2
        (scene_id (scenes state_AB_S2 ! 1)) (shot_id (shot_at (scenes state_AB_S2) 1 0))
      = Some acts'"
    by (simp add: value_AB_S2 handleGenerateImage_dispatch_def findShot_def shot_at_def
        example_scene_def example_shot_def)
  from image_request_by_unique_ids [OF an, of "''B''" "''S3''" "[]" 1 0 acts'] h d
  obtain refs t where e: "acts' =
             [UpdateShot (scene_id (scenes state_AB_S2 ! 1))
                (shot_id (shot_at (scenes state_AB_S2) 1 0))
                (no_updates\<lparr>upd_imageStatus := Some LOADING, upd_error := Some None\<rparr>),
              GenerateContent
                (reference_part (heroImage (visualIdentity (example_analysis cinematic)))
                 @ refs @ [TextPart t])]"
    and c: "\<forall>prev. videoMode (visualIdentity (example_analysis cinematic)) = cinematic
                      \<and> global_predecessor (scenes state_AB_S2) 1 0 = Some prev
                      \<and> imageStatus prev = SUCCESS \<longrightarrow>
                        (\<exists>url. imageUrl prev = Some url
                           \<and> refs = [InlineData ''image/png'' (payload url)])"
    by blast
  from c k(3,4,5) have "\<exists>url. imageUrl ?S2 = Some url
      \<and> refs = [InlineData ''image/png'' (payload url)]"
    by blast
  then have refs: "refs = [InlineData ''image/png'' (Some ''UklWRVI='')]"
    unfolding k(6) using k(8) by auto
  have cin: "\<exists>t. handleGenerateImage_dispatch state_AB_S2 ''B'' ''S3''
          = Some [UpdateShot ''B'' ''S3''
                    (no_updates\<lparr>upd_imageStatus := Some LOADING, upd_error := Some None\<rparr>),
                  GenerateContent
                    [InlineData ''image/png'' (Some ''SEVSTw==''),
                     InlineData ''image/png'' (Some ''UklWRVI=''),
                     TextPart t]]"
    using d e unfolding k(1,2,7) refs by auto
  have am: "analysis state_montage_S2 = Some (example_analysis montage)"
    by (simp add: value_montage_S2)
  obtain acts where m: "handleGenerateImage_dispatch state_montage_S2 ''B'' ''S3'' = Some acts"
    by (simp add: value_montage_S2 handleGenerateImage_dispatch_def findShot_def
        example_scene_def example_shot_def)
  have km: "videoMode (visualIdentity (example_analysis montage)) = montage"
    "reference_part (heroImage (visualIdentity (example_analysis montage)))
       = [InlineData ''image/png'' (Some ''SEVSTw=='')]"
    by (simp_all add: example_analysis_def reference_part_def payload_def js_nth_def)
  from image_request_by_unique_ids [OF am, of "''B''" "''S3''" acts 0 0 "[]"] km(1) m
  have "\<exists>t. acts =
               [UpdateShot ''B'' ''S3''
                  (no_updates\<lparr>upd_imageStatus := Some LOADING, upd_error := Some None\<rparr>),
                GenerateContent
                  (reference_part (heroImage (visualIdentity (example_analysis montage)))
                   @ [TextPart t])]"
    by blast
  with m have mon: "\<exists>t. handleGenerateImage_dispatch state_montage_S2 ''B'' ''S3''
          = Some [UpdateShot ''B'' ''S3''
                    (no_updates\<lparr>upd_imageStatus := Some LOADING, upd_error := Some None\<rparr>),
                  GenerateContent [InlineData ''image/png'' (Some ''SEVSTw==''), TextPart t]]"
    unfolding km(2) by auto
  from an h k(3) cin am mon show ?thesis by simp
qed

text \<open>
  Claim C3 says that in cinematic mode the image request of a shot whose global
  predecessor has a successful image holds that image. The code does not where shot ids
  repeat from scene to scene, which \<^verbatim>\<open>planScenes\<close> allows: it keeps the ids of the upstream
  response. \<^verbatim>\<open>getPreviousShot\<close> looks the shot id up in the whole flattened list and never
  reads its scene id. The state is reachable: the timeline A = [shot-1, shot-2],
  B = [shot-1, shot-2], planned in cinematic mode, with a successful image of A's second
  shot, which is the global predecessor of B's first shot. The request for B's first shot
  holds the hero image and the text prompt only: \<^verbatim>\<open>getPreviousShot\<close> finds the id
  \<^verbatim>\<open>shot-1\<close> at the head of the flattened list, where there is no predecessor.
\<close>

theorem image_request_misses_predecessor_image:
  "reachable state_numbered_A2
   \<and> analysis state_numbered_A2 = Some (example_analysis cinematic)
   \<and> videoMode (visualIdentity (example_analysis cinematic)) = cinematic
   \<and> scene_id (scenes state_numbered_A2 ! 1) = ''B''
   \<and> shot_id (shot_at (scenes state_numbered_A2) 1 0) = ''shot-1''
   \<and> global_predecessor (scenes state_numbered_A2) 1 0
       = Some (example_shot ''shot-2'' ''river'' (Some ''data:image/png;base64,UklWRVI='')
                 SUCCESS True)
   \<and> imageStatus (example_shot ''shot-2'' ''river'' (Some ''data:image/png;base64,UklWRVI='')
                 SUCCESS True) = SUCCESS
   \<and> getPreviousShot (scenes state_numbered_A2) ''B'' ''shot-1'' = None
   \<and> handleGenerateImage_dispatch state_numbered_A2 ''B'' ''shot-1''
       = Some [UpdateShot ''B'' ''shot-1''
                 (no_updates\<lparr>upd_imageStatus := Some LOADING, upd_error := Some None\<rparr>),
               GenerateContent
                 [InlineData ''image/png'' (Some ''SEVSTw==''),
                  TextPart
                    \<lparr>prompt_subject = ''blue skin, matted hair'', prompt_deity = ''Shiva'',
                     prompt_action = ''temple'', prompt_narrative = ''the deity appears'',
                     prompt_style = ''35mm film'', prompt_mood = ''fierce'',
                     prompt_continuity = False\<rparr>]]"
proof -
  have "handleGenerateImage_dispatch state_numbered_A2 ''B'' ''shot-1''
       = Some [UpdateShot ''B'' ''shot-1''
                 (no_updates\<lparr>upd_imageStatus := Some LOADING, upd_error := Some None\<rparr>),
               GenerateContent
                 [InlineData ''image/png'' (Some ''SEVSTw==''),
                  TextPart
                    \<lparr>prompt_subject = ''blue skin, matted hair'', prompt_deity = ''Shiva'',
                     prompt_action = ''temple'', prompt_narrative = ''the deity appears'',
                     prompt_style = ''35mm film'', prompt_mood = ''fierce'',
                     prompt_continuity = False\<rparr>]]"
    by (simp add: value_numbered_A2 image_request_defs)
  moreover have "global_predecessor (scenes state_numbered_A2) 1 0
       = Some (example_shot ''shot-2'' ''river'' (Some ''data:image/png;base64,UklWRVI='')
                 SUCCESS True)"
    by (simp add: value_numbered_A2 global_predecessor_def flatten_index_def flatten_def
        example_scene_def)
  moreover have "getPreviousShot (scenes state_numbered_A2) ''B'' ''shot-1'' = None"
    by (simp add: value_numbered_A2 getPreviousShot_def allShots_def example_scene_def
        example_shot_def)
  ultimately show ?thesis
    using reachable_examples(5)
    by (simp add: value_numbered_A2 shot_at_def example_scene_def example_shot_def
        example_analysis_def)
qed

end
